theory Spec2Isabelle
  imports Main
begin

section \<open>JavaScript values, errors and objects\<close>

text \<open>
  The evaluator of \<^verbatim>\<open>evaluate-cloudformation-template.ts\<close> works on parsed JSON
  (\<^verbatim>\<open>cfnExpression: any\<close>). A value is one of the JSON shapes, plus \<^verbatim>\<open>undefined\<close>,
  which the code produces itself (a missing positional argument, an index out of range).
  Numbers are the integers. Strings are lists of characters, one for each code unit; the
  string operations below do not look at the characters but to compare them, except
  \<^verbatim>\<open>toLowerCase\<close>, which is modelled on the letters A to Z. An object is the list
  of its own entries: for an expression in the order in which \<^verbatim>\<open>Object.entries\<close>
  enumerates them, for the context in the order of their definition (the context is
  only ever read by key).

  Every \<^verbatim>\<open>throw\<close> of the source is a value of \<open>error\<close>:
  \<^item> \<open>CfnEvaluationException msg\<close> is the class of line 5, which extends \<^verbatim>\<open>Error\<close>
    and adds no field: the message is all it carries;
  \<^item> \<open>TypeError\<close> is the error the JavaScript runtime raises (calling a method of
    \<^verbatim>\<open>undefined\<close>, using \<^verbatim>\<open>in\<close> on a primitive);
  \<^item> \<open>CollaboratorFailure\<close> is a rejection of \<^verbatim>\<open>listStackResources()\<close>;
  \<^item> \<open>Unmodelled\<close> marks the places where JavaScript goes on with a value that this
    development does not represent: a member inherited from \<^verbatim>\<open>Object.prototype\<close>
    that leaves the evaluator as a result or is called as a formatter
    (\<^verbatim>\<open>o['toString']\<close> is a function), an object whose prototype was replaced, the
    conversion of an array or object to a string, an argument of another type than the
    handler's signature declares.
    An \<open>Unmodelled\<close> outcome says nothing about the program: where a theorem below
    states a result or an error of the program, it is none of these.
\<close>

datatype jv =
    JUndefined
  | JNull
  | JBool bool
  | JNum int
  | JStr string
  | JArr "jv list"
  | JObj "(string \<times> jv) list"

datatype error =
    CfnEvaluationException (message: string)
  | TypeError
  | CollaboratorFailure string
  | Unmodelled

text \<open>Sequencing of fallible steps: an \<^verbatim>\<open>await\<close> that rejects ends the caller.\<close>

definition bind_result :: "error + 'a \<Rightarrow> ('a \<Rightarrow> error + 'b) \<Rightarrow> error + 'b" where
  "bind_result r f = (case r of Inl e \<Rightarrow> Inl e | Inr v \<Rightarrow> f v)"

text \<open>The names every object literal inherits from \<^verbatim>\<open>Object.prototype\<close>.\<close>

definition Object_prototype :: "string list" where
  "Object_prototype =
     [''constructor'', ''__defineGetter__'', ''__defineSetter__'', ''hasOwnProperty'',
      ''__lookupGetter__'', ''__lookupSetter__'', ''isPrototypeOf'',
      ''propertyIsEnumerable'', ''toString'', ''valueOf'', ''__proto__'',
      ''toLocaleString'']"

datatype 'a property = Own 'a | Inherited | Absent

text \<open>\<^verbatim>\<open>obj[k]\<close> on an object literal: an own entry, an inherited member, or \<^verbatim>\<open>undefined\<close>.\<close>

definition get_property :: "(string \<times> 'a) list \<Rightarrow> string \<Rightarrow> 'a property" where
  "get_property obj k =
     (case map_of obj k of
        Some v \<Rightarrow> Own v
      | None \<Rightarrow> if k \<in> set Object_prototype then Inherited else Absent)"

text \<open>
  Defining the own property \<open>k\<close> (a key of an object literal, an entry copied by the
  spread \<^verbatim>\<open>...obj\<close>): an existing key keeps its place and takes the new value, a new
  key goes to the end.
\<close>

fun obj_define :: "(string \<times> 'a) list \<Rightarrow> string \<Rightarrow> 'a \<Rightarrow> (string \<times> 'a) list" where
  "obj_define [] k v = [(k, v)]"
| "obj_define ((k', v') # obj) k v =
     (if k' = k then (k, v) # obj else (k', v') # obj_define obj k v)"

text \<open>
  The assignment \<^verbatim>\<open>ret[key] = v\<close> on an object literal. It defines the own property,
  except for the key \<^verbatim>\<open>__proto__\<close>, which runs the setter inherited from
  \<^verbatim>\<open>Object.prototype\<close> instead: no own property is created. With a value that is
  neither an object nor \<^verbatim>\<open>null\<close> the setter does nothing and the object stays as it
  is; with an object, an array or \<^verbatim>\<open>null\<close> it replaces the prototype of the object.
\<close>

definition obj_assign :: "(string \<times> jv) list \<Rightarrow> string \<Rightarrow> jv \<Rightarrow> error + (string \<times> jv) list" where
  "obj_assign obj k v =
     (if k = ''__proto__'' then
        (case v of
           JObj x \<Rightarrow> Inl Unmodelled
         | JArr xs \<Rightarrow> Inl Unmodelled
         | JNull \<Rightarrow> Inl Unmodelled
         | _ \<Rightarrow> Inr obj)
      else Inr (obj_define obj k v))"

subsection \<open>Conversions\<close>

definition digit_char :: "nat \<Rightarrow> char" where
  "digit_char d = ''0123456789'' ! d"

function show_nat :: "nat \<Rightarrow> string" where
  "show_nat n = (if n < 10 then [digit_char n] else show_nat (n div 10) @ [digit_char (n mod 10)])"
  by pat_completeness auto
termination
  by (relation "measure id") auto

definition show_int :: "int \<Rightarrow> string" where
  "show_int i = (if i < 0 then CHR ''-'' # show_nat (nat (- i)) else show_nat (nat i))"

text \<open>
  \<^verbatim>\<open>ToString\<close> of a primitive value (template literals, \<^verbatim>\<open>join\<close>, \<^verbatim>\<open>split\<close>).
  A number reads as its decimal digits as long as it is a safe integer.
\<close>

definition safe_integer :: "int \<Rightarrow> bool" where
  "safe_integer i = (- 9007199254740991 \<le> i \<and> i \<le> 9007199254740991)"

fun ToString :: "jv \<Rightarrow> error + string" where
  "ToString JUndefined = Inr ''undefined''"
| "ToString JNull = Inr ''null''"
| "ToString (JBool b) = Inr (if b then ''true'' else ''false'')"
| "ToString (JNum i) = (if safe_integer i then Inr (show_int i) else Inl Unmodelled)"
| "ToString (JStr s) = Inr s"
| "ToString (JArr xs) = Inl Unmodelled"
| "ToString (JObj kvs) = Inl Unmodelled"

text \<open>\<^verbatim>\<open>ToBoolean\<close>: what \<^verbatim>\<open>if (x)\<close> and \<^verbatim>\<open>!x\<close> test.\<close>

fun truthy :: "jv \<Rightarrow> bool" where
  "truthy JUndefined = False"
| "truthy JNull = False"
| "truthy (JBool b) = b"
| "truthy (JNum i) = (i \<noteq> 0)"
| "truthy (JStr s) = (s \<noteq> [])"
| "truthy (JArr xs) = True"
| "truthy (JObj kvs) = True"

subsection \<open>String methods\<close>

definition startsWith :: "string \<Rightarrow> string \<Rightarrow> bool" where
  "startsWith s p = (take (length p) s = p)"

definition toLowerCase_char :: "char \<Rightarrow> char" where
  "toLowerCase_char c =
     (case map_of (zip ''ABCDEFGHIJKLMNOPQRSTUVWXYZ'' ''abcdefghijklmnopqrstuvwxyz'') c of
        Some l \<Rightarrow> l
      | None \<Rightarrow> c)"

definition toLowerCase :: "string \<Rightarrow> string" where
  "toLowerCase s = map toLowerCase_char s"

text \<open>
  \<^verbatim>\<open>s.split(sep)\<close> with a string separator. The scan of the non-empty separator keeps
  the segment read so far in \<open>acc\<close>; a match closes the segment and skips the separator.
  The empty separator cuts the string into its code units.
\<close>

function split_loop :: "string \<Rightarrow> string \<Rightarrow> string \<Rightarrow> string list" where
  "split_loop sep acc s =
     (if s = [] then [acc]
      else if sep \<noteq> [] \<and> startsWith s sep then acc # split_loop sep [] (drop (length sep) s)
      else split_loop sep (acc @ [hd s]) (tl s))"
  by pat_completeness auto
termination
  by (relation "measure (\<lambda>(sep, acc, s). length s)") auto

definition split :: "string \<Rightarrow> string \<Rightarrow> string list" where
  "split s sep = (if sep = [] then map (\<lambda>c. [c]) s else split_loop sep [] s)"

text \<open>\<^verbatim>\<open>xs.join(sep)\<close> on strings.\<close>

fun join :: "string list \<Rightarrow> string \<Rightarrow> string" where
  "join [] sep = []"
| "join [x] sep = x"
| "join (x # y # ys) sep = x @ sep @ join (y # ys) sep"

section \<open>The identifier formatters\<close>

record ArnParts =
  partition' :: string
  service :: string
  region :: string
  account :: string
  resourceType :: string
  resourceName :: string

definition iamArnFmt :: "ArnParts \<Rightarrow> string" where
  "iamArnFmt parts =
     ''arn:'' @ partition' parts @ '':'' @ service parts @ ''::'' @ account parts @ '':''
       @ resourceType parts @ ''/'' @ resourceName parts"

definition s3ArnFmt :: "ArnParts \<Rightarrow> string" where
  "s3ArnFmt parts =
     ''arn:'' @ partition' parts @ '':'' @ service parts @ '':::'' @ resourceName parts"

definition stdColonResourceArnFmt :: "ArnParts \<Rightarrow> string" where
  "stdColonResourceArnFmt parts =
     ''arn:'' @ partition' parts @ '':'' @ service parts @ '':'' @ region parts @ '':''
       @ account parts @ '':'' @ resourceType parts @ '':'' @ resourceName parts"

definition RESOURCE_TYPE_ATTRIBUTES_FORMATS ::
    "(string \<times> (string \<times> (ArnParts \<Rightarrow> string)) list) list" where
  "RESOURCE_TYPE_ATTRIBUTES_FORMATS =
     [(''AWS::IAM::Role'', [(''Arn'', iamArnFmt)]),
      (''AWS::IAM::User'', [(''Arn'', iamArnFmt)]),
      (''AWS::IAM::Group'', [(''Arn'', iamArnFmt)]),
      (''AWS::S3::Bucket'', [(''Arn'', s3ArnFmt)]),
      (''AWS::Lambda::Function'', [(''Arn'', stdColonResourceArnFmt)])]"

section \<open>The evaluation session\<close>

text \<open>
  \<^verbatim>\<open>AWS.CloudFormation.StackResourceSummary\<close>: the physical id is optional in the SDK's
  type (the source reads it with \<^verbatim>\<open>?.\<close> and \<^verbatim>\<open>!\<close>).
\<close>

record StackResourceSummary =
  LogicalResourceId :: string
  PhysicalResourceId :: "string option"
  ResourceType :: string

text \<open>
  \<^verbatim>\<open>EvaluateCloudFormationTemplateProps\<close>, without the stack artifact, which this file
  never reads. \<^verbatim>\<open>listStackResources()\<close> is the external inventory call: it answers
  with the resource records or rejects, the same way at every call of one evaluation.
\<close>

record EvaluateCloudFormationTemplateProps =
  props_parameters :: "(string \<times> string) list"
  props_account :: string
  props_region :: string
  props_partition :: string
  props_urlSuffix :: string
  props_listStackResources :: "error + StackResourceSummary list"

record EvaluateCloudFormationTemplate =
  this_stackResources :: "error + StackResourceSummary list"
  this_context :: "(string \<times> string) list"
  this_account :: string
  this_region :: string
  this_partition :: string

text \<open>
  The constructor. The object literal defines the four pseudo parameters in order and
  then copies the entries of \<^verbatim>\<open>props.parameters\<close>, one after the other.
\<close>

definition spread :: "(string \<times> 'a) list \<Rightarrow> (string \<times> 'a) list \<Rightarrow> (string \<times> 'a) list" where
  "spread obj src = foldl (\<lambda>acc (k, v). obj_define acc k v) obj src"

definition new_EvaluateCloudFormationTemplate ::
    "EvaluateCloudFormationTemplateProps \<Rightarrow> EvaluateCloudFormationTemplate" where
  "new_EvaluateCloudFormationTemplate props =
     \<lparr> this_stackResources = props_listStackResources props,
       this_context =
         spread
           (obj_define (obj_define (obj_define (obj_define []
              ''AWS::AccountId'' (props_account props))
              ''AWS::Region'' (props_region props))
              ''AWS::Partition'' (props_partition props))
              ''AWS::URLSuffix'' (props_urlSuffix props))
           (props_parameters props),
       this_account = props_account props,
       this_region = props_region props,
       this_partition = props_partition props \<rparr>"

section \<open>The resource resolver\<close>

definition quoted :: "string \<Rightarrow> string" where
  "quoted s = [CHR 0x27] @ s @ [CHR 0x27]"

definition report_it :: string where
  "report_it = ''This is a CDK limitation. Please report it at https://github.com/aws/aws-cdk/issues/new/choose''"

definition unsupported_kind_message :: "string \<Rightarrow> string" where
  "unsupported_kind_message kind =
     ''We don'' @ [CHR 0x27] @ ''t support attributes of the '' @ quoted kind @ '' resource. ''
       @ report_it"

definition unsupported_attribute_message :: "string \<Rightarrow> string \<Rightarrow> string" where
  "unsupported_attribute_message kind attribute =
     ''We don'' @ [CHR 0x27] @ ''t support the '' @ quoted attribute @ '' attribute of the ''
       @ quoted kind @ '' resource. '' @ report_it"

text \<open>
  \<^verbatim>\<open>resource.ResourceType.split('::')[n].toLowerCase()\<close>: a kind with too few segments
  makes the element \<^verbatim>\<open>undefined\<close>, and the method call on it raises.
\<close>

definition segment_lower :: "string \<Rightarrow> nat \<Rightarrow> error + string" where
  "segment_lower kind n =
     (let segs = split kind ''::''
      in if n < length segs then Inr (toLowerCase (segs ! n)) else Inl TypeError)"

definition getServiceOfResource :: "StackResourceSummary \<Rightarrow> error + string" where
  "getServiceOfResource resource = segment_lower (ResourceType resource) 1"

definition getResourceTypeArnPartOfResource :: "StackResourceSummary \<Rightarrow> error + string" where
  "getResourceTypeArnPartOfResource resource = segment_lower (ResourceType resource) 2"

text \<open>A physical id inside a template literal: a missing one reads \<^verbatim>\<open>undefined\<close>.\<close>

definition physicalId_text :: "string option \<Rightarrow> string" where
  "physicalId_text physicalId = (case physicalId of Some n \<Rightarrow> n | None \<Rightarrow> ''undefined'')"

text \<open>
  A kind that is the name of a member inherited from \<^verbatim>\<open>Object.prototype\<close> finds that
  member in the table: a built-in function, or \<^verbatim>\<open>Object.prototype\<close> itself for
  \<^verbatim>\<open>__proto__\<close>, each of them truthy. The attribute is then read from that member. The
  properties of these built-in objects (their own ones, those of \<^verbatim>\<open>Function.prototype\<close>
  and those of \<^verbatim>\<open>Object.prototype\<close>) have names that begin with a lower-case letter or
  an underscore: an attribute name that begins with an upper-case letter, like
  \<^verbatim>\<open>Arn\<close>, reads \<^verbatim>\<open>undefined\<close> there.
\<close>

definition capitalised :: "string \<Rightarrow> bool" where
  "capitalised attr = (attr \<noteq> [] \<and> hd attr \<in> set ''ABCDEFGHIJKLMNOPQRSTUVWXYZ'')"

text \<open>
  \<^verbatim>\<open>formatResourceAttribute\<close>. The attribute is \<open>None\<close> for \<^verbatim>\<open>undefined\<close>;
  \<^verbatim>\<open>!attribute\<close> holds for \<^verbatim>\<open>undefined\<close> and for the empty string. The result
  \<open>None\<close> is \<^verbatim>\<open>undefined\<close> (a record without physical id, asked without attribute).
\<close>

definition formatResourceAttribute ::
    "EvaluateCloudFormationTemplate \<Rightarrow> StackResourceSummary \<Rightarrow> string option
       \<Rightarrow> error + string option" where
  "formatResourceAttribute this resource attribute =
     (let physicalId = PhysicalResourceId resource in
      case attribute of
        None \<Rightarrow> Inr physicalId
      | Some attr \<Rightarrow>
          if attr = [] then Inr physicalId
          else
            (case get_property RESOURCE_TYPE_ATTRIBUTES_FORMATS (ResourceType resource) of
               Absent \<Rightarrow>
                 Inl (CfnEvaluationException (unsupported_kind_message (ResourceType resource)))
             | Inherited \<Rightarrow>
                 if capitalised attr
                 then Inl (CfnEvaluationException
                             (unsupported_attribute_message (ResourceType resource) attr))
                 else Inl Unmodelled
             | Own resourceTypeFormats \<Rightarrow>
                 (case get_property resourceTypeFormats attr of
                    Absent \<Rightarrow>
                      Inl (CfnEvaluationException
                             (unsupported_attribute_message (ResourceType resource) attr))
                  | Inherited \<Rightarrow> Inl Unmodelled
                  | Own attributeFmtFunc \<Rightarrow>
                      bind_result (getServiceOfResource resource) (\<lambda>service.
                      bind_result (getResourceTypeArnPartOfResource resource) (\<lambda>resourceTypeArnPart.
                        Inr (Some (attributeFmtFunc
                          \<lparr> partition' = this_partition this,
                            service = service,
                            region = this_region this,
                            account = this_account this,
                            resourceType = resourceTypeArnPart,
                            resourceName = physicalId_text physicalId \<rparr>)))))))"

text \<open>
  \<^verbatim>\<open>stackResources.find(sr => sr.LogicalResourceId === logicalId)\<close>: the first record
  with that logical name.
\<close>

definition find_resource :: "StackResourceSummary list \<Rightarrow> string \<Rightarrow> StackResourceSummary option" where
  "find_resource rs logicalId = find (\<lambda>sr. LogicalResourceId sr = logicalId) rs"

definition findGetAttTarget ::
    "EvaluateCloudFormationTemplate \<Rightarrow> string \<Rightarrow> string option \<Rightarrow> error + string option" where
  "findGetAttTarget this logicalId attribute =
     bind_result (this_stackResources this) (\<lambda>rs.
       case find_resource rs logicalId of
         None \<Rightarrow> Inr None
       | Some foundResource \<Rightarrow> formatResourceAttribute this foundResource attribute)"

text \<open>
  \<^verbatim>\<open>findRefTarget\<close>: \<^verbatim>\<open>if (parameterTarget)\<close> tests the value read from the context,
  so the branch is taken for a non-empty string.
\<close>

definition findRefTarget ::
    "EvaluateCloudFormationTemplate \<Rightarrow> string \<Rightarrow> error + string option" where
  "findRefTarget this logicalId =
     (case get_property (this_context this) logicalId of
        Inherited \<Rightarrow> Inl Unmodelled
      | Own parameterTarget \<Rightarrow>
          if parameterTarget \<noteq> [] then Inr (Some parameterTarget)
          else findGetAttTarget this logicalId None
      | Absent \<Rightarrow> findGetAttTarget this logicalId None)"

definition findPhysicalNameFor ::
    "EvaluateCloudFormationTemplate \<Rightarrow> string \<Rightarrow> error + string option" where
  "findPhysicalNameFor this logicalId =
     bind_result (this_stackResources this) (\<lambda>rs.
       case find_resource rs logicalId of
         None \<Rightarrow> Inr None
       | Some sr \<Rightarrow> Inr (PhysicalResourceId sr))"

section \<open>The intrinsic functions\<close>

text \<open>
  The handlers are methods of the inner class \<^verbatim>\<open>CfnIntrinsics\<close>. They reach the
  evaluator through the captured \<^verbatim>\<open>self\<close>; here each handler that calls
  \<^verbatim>\<open>self.evaluateCfnExpression\<close> takes it as its first argument. A handler receives
  the positional arguments \<^verbatim>\<open>argsAsArray\<close>; a parameter beyond the end of that array
  is \<^verbatim>\<open>undefined\<close>.
\<close>

record Intrinsic =
  name :: string
  args :: jv

definition arg :: "jv list \<Rightarrow> nat \<Rightarrow> jv" where
  "arg argsAsArray n = (if n < length argsAsArray then argsAsArray ! n else JUndefined)"

text \<open>
  \<^verbatim>\<open>Promise.all\<close>: all the values in the order of the elements, or a rejection. With
  several failing elements JavaScript reports the one that rejects first in time; the
  model reports the leftmost. No theorem below depends on which one it is.
\<close>

fun Promise_all :: "(error + 'a) list \<Rightarrow> error + 'a list" where
  "Promise_all [] = Inr []"
| "Promise_all (r # rs) =
     bind_result r (\<lambda>v. bind_result (Promise_all rs) (\<lambda>vs. Inr (v # vs)))"

text \<open>
  \<^verbatim>\<open>Array.prototype.join\<close>: the separator defaults to a comma, and the elements
  \<^verbatim>\<open>undefined\<close> and \<^verbatim>\<open>null\<close> read as the empty string.
\<close>

definition join_separator :: "jv \<Rightarrow> error + string" where
  "join_separator separator = (if separator = JUndefined then Inr '','' else ToString separator)"

definition join_element :: "jv \<Rightarrow> error + string" where
  "join_element x = (if x = JUndefined \<or> x = JNull then Inr [] else ToString x)"

definition Array_join :: "jv list \<Rightarrow> jv \<Rightarrow> error + jv" where
  "Array_join xs separator =
     bind_result (join_separator separator) (\<lambda>sep.
     bind_result (Promise_all (map join_element xs)) (\<lambda>strs.
       Inr (JStr (join strs sep))))"

definition Fn_Join :: "(jv \<Rightarrow> error + jv) \<Rightarrow> jv list \<Rightarrow> error + jv" where
  "Fn_Join self_evaluateCfnExpression argsAsArray =
     (let separator = arg argsAsArray 0 in
      bind_result (self_evaluateCfnExpression (arg argsAsArray 1)) (\<lambda>evaluatedArgs.
        case evaluatedArgs of
          JArr xs \<Rightarrow> Array_join xs separator
        | _ \<Rightarrow> Inl TypeError))"

definition Fn_Split :: "(jv \<Rightarrow> error + jv) \<Rightarrow> jv list \<Rightarrow> error + jv" where
  "Fn_Split self_evaluateCfnExpression argsAsArray =
     (let separator = arg argsAsArray 0 in
      bind_result (self_evaluateCfnExpression (arg argsAsArray 1)) (\<lambda>evaluatedArgs.
        case evaluatedArgs of
          JStr s \<Rightarrow>
            if separator = JUndefined then Inr (JArr [JStr s])
            else bind_result (ToString separator) (\<lambda>sep. Inr (JArr (map JStr (split s sep))))
        | _ \<Rightarrow> Inl TypeError))"

text \<open>
  \<^verbatim>\<open>evaluatedArgs[index]\<close> with a number as index: an element of the array (a code
  unit of the string) when the index is inside, \<^verbatim>\<open>undefined\<close> when it is not. The
  source has no other check.
\<close>

fun element_at :: "jv \<Rightarrow> jv \<Rightarrow> error + jv" where
  "element_at JUndefined index = Inl TypeError"
| "element_at JNull index = Inl TypeError"
| "element_at (JArr xs) (JNum i) =
     (if 0 \<le> i \<and> nat i < length xs then Inr (xs ! nat i) else Inr JUndefined)"
| "element_at (JStr s) (JNum i) =
     (if 0 \<le> i \<and> nat i < length s then Inr (JStr [s ! nat i]) else Inr JUndefined)"
| "element_at evaluatedArgs index = Inl Unmodelled"

definition Fn_Select :: "(jv \<Rightarrow> error + jv) \<Rightarrow> jv list \<Rightarrow> error + jv" where
  "Fn_Select self_evaluateCfnExpression argsAsArray =
     (let index = arg argsAsArray 0 in
      bind_result (self_evaluateCfnExpression (arg argsAsArray 1)) (\<lambda>evaluatedArgs.
        element_at evaluatedArgs index))"

definition unresolved_reference_message :: "string \<Rightarrow> string" where
  "unresolved_reference_message logicalId =
     ''Parameter or resource '' @ quoted logicalId @ '' could not be found for evaluation''"

definition unresolved_attribute_message :: "string \<Rightarrow> string \<Rightarrow> string" where
  "unresolved_attribute_message attributeName logicalId =
     ''Attribute '' @ quoted attributeName @ '' of resource '' @ quoted logicalId
       @ '' could not be found for evaluation''"

text \<open>\<^verbatim>\<open>if (refTarget)\<close>: a string that is there and not empty.\<close>

definition Ref :: "EvaluateCloudFormationTemplate \<Rightarrow> jv list \<Rightarrow> error + jv" where
  "Ref this argsAsArray =
     (case arg argsAsArray 0 of
        JStr logicalId \<Rightarrow>
          bind_result (findRefTarget this logicalId) (\<lambda>refTarget.
            case refTarget of
              Some t \<Rightarrow>
                if t \<noteq> [] then Inr (JStr t)
                else Inl (CfnEvaluationException (unresolved_reference_message logicalId))
            | None \<Rightarrow> Inl (CfnEvaluationException (unresolved_reference_message logicalId)))
      | _ \<Rightarrow> Inl Unmodelled)"

definition Fn_GetAtt_strings ::
    "EvaluateCloudFormationTemplate \<Rightarrow> string \<Rightarrow> string option \<Rightarrow> error + jv" where
  "Fn_GetAtt_strings this logicalId attributeName =
     bind_result (findGetAttTarget this logicalId attributeName) (\<lambda>attrValue.
       case attrValue of
         Some v \<Rightarrow>
           if v \<noteq> [] then Inr (JStr v)
           else Inl (CfnEvaluationException (unresolved_attribute_message
                  (case attributeName of Some a \<Rightarrow> a | None \<Rightarrow> ''undefined'') logicalId))
       | None \<Rightarrow>
           Inl (CfnEvaluationException (unresolved_attribute_message
                  (case attributeName of Some a \<Rightarrow> a | None \<Rightarrow> ''undefined'') logicalId)))"

definition Fn_GetAtt :: "EvaluateCloudFormationTemplate \<Rightarrow> jv list \<Rightarrow> error + jv" where
  "Fn_GetAtt this argsAsArray =
     (case (arg argsAsArray 0, arg argsAsArray 1) of
        (JStr logicalId, JStr attributeName) \<Rightarrow> Fn_GetAtt_strings this logicalId (Some attributeName)
      | (JStr logicalId, JUndefined) \<Rightarrow> Fn_GetAtt_strings this logicalId None
      | _ \<Rightarrow> Inl Unmodelled)"

subsection \<open>\<^verbatim>\<open>Fn::Sub\<close> and the scan of the template\<close>

text \<open>
  The regular expression \<^verbatim>\<open>/\${([^}]*)}/g\<close>. A match at the head of \<open>s\<close> needs the two
  characters \<^verbatim>\<open>${\<close>; the group then takes every character up to the first \<^verbatim>\<open>}\<close>,
  which must exist (a shorter run of the greedy star is followed by a character that is
  not a closing brace, so backtracking finds nothing). The result is the text of the
  group and the rest of the string after the closing brace.
\<close>

definition match_here :: "string \<Rightarrow> (string \<times> string) option" where
  "match_here s =
     (if startsWith s ''${'' then
        (let body = drop 2 s;
             key = takeWhile (\<lambda>c. c \<noteq> CHR ''}'') body;
             closing = dropWhile (\<lambda>c. c \<noteq> CHR ''}'') body
         in if closing = [] then None else Some (key, tl closing))
      else None)"

text \<open>
  \<^verbatim>\<open>regex.exec(str)\<close> on the part of the string from \<^verbatim>\<open>lastIndex\<close> on: the leftmost
  position with a match. The result is the text before the match
  (\<^verbatim>\<open>str.substring(start, match.index)\<close>, as \<^verbatim>\<open>start\<close> is the former
  \<^verbatim>\<open>lastIndex\<close>), the group \<^verbatim>\<open>match[1]\<close>, and the text from the new
  \<^verbatim>\<open>lastIndex\<close> on.
\<close>

fun regex_exec :: "string \<Rightarrow> (string \<times> string \<times> string) option" where
  "regex_exec [] = None"
| "regex_exec (c # cs) =
     (case match_here (c # cs) of
        Some (key, rest) \<Rightarrow> Some ([], key, rest)
      | None \<Rightarrow>
          (case regex_exec cs of
             Some (pre, key, rest) \<Rightarrow> Some (c # pre, key, rest)
           | None \<Rightarrow> None))"

lemma match_here_shorter: "match_here s = Some (key, rest) \<Longrightarrow> length rest < length s"
proof -
  assume m: "match_here s = Some (key, rest)"
  let ?body = "drop 2 s"
  let ?closing = "dropWhile (\<lambda>c. c \<noteq> CHR ''}'') ?body"
  from m have ne: "?closing \<noteq> []" and r: "rest = tl ?closing"
    by (auto simp: match_here_def Let_def split: if_splits)
  have "length ?closing \<le> length ?body"
    by (rule length_dropWhile_le)
  with ne r show ?thesis
    by (cases ?closing) auto
qed

lemma regex_exec_shorter:
  "regex_exec s = Some (pre, key, rest) \<Longrightarrow> length rest < length s"
proof (induction s arbitrary: pre)
  case Nil
  then show ?case by simp
next
  case (Cons c cs)
  show ?case
  proof (cases "match_here (c # cs)")
    case (Some m)
    with Cons.prems have "match_here (c # cs) = Some (key, rest)"
      by (cases m) auto
    then show ?thesis by (rule match_here_shorter)
  next
    case None
    with Cons.prems obtain b where "regex_exec cs = Some (b, key, rest)"
      by (auto split: option.splits)
    then have "length rest < length cs" by (rule Cons.IH)
    then show ?thesis by simp
  qed
qed

text \<open>
  The loop of \<^verbatim>\<open>asyncGlobalReplace\<close>. \<open>s\<close> is the template from \<^verbatim>\<open>start\<close> on
  and \<open>ret\<close> the array of pieces pushed so far; the callback is awaited before the
  scan goes on, and its rejection ends the loop.
\<close>

text \<open>
  What the callback of \<^verbatim>\<open>Fn::Sub\<close> hands to the array of pieces: a value of the
  evaluator, or the member of that name which the placeholders object inherits from
  \<^verbatim>\<open>Object.prototype\<close> (a built-in function, or the prototype itself for
  \<^verbatim>\<open>__proto__\<close>).
\<close>

datatype piece = Json jv | Inherited_member string

text \<open>
  The text of an inherited member, as \<^verbatim>\<open>join\<close> reads it: the source text of a
  built-in function (\<^verbatim>\<open>constructor\<close> is the function \<^verbatim>\<open>Object\<close>), and
  \<^verbatim>\<open>[object Object]\<close> for the prototype.
\<close>

definition member_text :: "string \<Rightarrow> string" where
  "member_text n =
     (if n = ''__proto__'' then ''[object Object]''
      else ''function '' @ (if n = ''constructor'' then ''Object'' else n)
             @ ''() { [native code] }'')"

definition piece_text :: "piece \<Rightarrow> error + string" where
  "piece_text p = (case p of Json v \<Rightarrow> join_element v | Inherited_member n \<Rightarrow> Inr (member_text n))"

function replace_loop ::
    "string \<Rightarrow> (string \<Rightarrow> error + piece) \<Rightarrow> piece list \<Rightarrow> error + piece list" where
  "replace_loop s cb ret =
     (case regex_exec s of
        None \<Rightarrow> Inr (ret @ [Json (JStr s)])
      | Some (pre, key, rest) \<Rightarrow>
          bind_result (cb key) (\<lambda>v. replace_loop rest cb (ret @ [Json (JStr pre), v])))"
  by pat_completeness auto
termination
  by (relation "measure (\<lambda>(s, cb, ret). length s)") (auto dest: regex_exec_shorter)

text \<open>
  \<^verbatim>\<open>asyncGlobalReplace\<close> is called with the one regular expression above, which
  has the flag \<^verbatim>\<open>g\<close>: the check of \<^verbatim>\<open>regex.global\<close> passes. The pieces are joined
  with the empty separator (\<^verbatim>\<open>ret.join('')\<close>).
\<close>

definition asyncGlobalReplace :: "string \<Rightarrow> (string \<Rightarrow> error + piece) \<Rightarrow> error + jv" where
  "asyncGlobalReplace str cb =
     bind_result (replace_loop str cb []) (\<lambda>ret.
     bind_result (Promise_all (map piece_text ret)) (\<lambda>strs.
       Inr (JStr (join strs []))))"

text \<open>
  The callback of \<^verbatim>\<open>Fn::Sub\<close>. \<^verbatim>\<open>key in placeholders\<close> raises on a primitive,
  and is true for an inherited name also: \<^verbatim>\<open>placeholders[key]\<close> is then the inherited
  member, and neither \<^verbatim>\<open>Ref\<close> nor \<^verbatim>\<open>Fn::GetAtt\<close> is asked.
\<close>

definition Sub_callback :: "EvaluateCloudFormationTemplate \<Rightarrow> jv \<Rightarrow> string \<Rightarrow> error + piece" where
  "Sub_callback this placeholders key =
     (case placeholders of
        JObj entries \<Rightarrow>
          (case get_property entries key of
             Own v \<Rightarrow> Inr (Json v)
           | Inherited \<Rightarrow> Inr (Inherited_member key)
           | Absent \<Rightarrow>
               (let splitKey = split key ''.''
                in bind_result
                     (if length splitKey = 1 then Ref this [JStr key]
                      else Fn_GetAtt this
                             [JStr (splitKey ! 0), JStr (join (drop 1 splitKey) ''.'')])
                     (\<lambda>v. Inr (Json v))))
      | JArr xs \<Rightarrow> Inl Unmodelled
      | _ \<Rightarrow> Inl TypeError)"

definition Fn_Sub ::
    "EvaluateCloudFormationTemplate \<Rightarrow> (jv \<Rightarrow> error + jv) \<Rightarrow> jv list \<Rightarrow> error + jv" where
  "Fn_Sub this self_evaluateCfnExpression argsAsArray =
     (let template = arg argsAsArray 0; explicitPlaceholders = arg argsAsArray 1 in
      bind_result
        (if truthy explicitPlaceholders then self_evaluateCfnExpression explicitPlaceholders
         else Inr (JObj []))
        (\<lambda>placeholders.
           case template of
             JStr t \<Rightarrow> asyncGlobalReplace t (Sub_callback this placeholders)
           | _ \<Rightarrow> Inl Unmodelled))"

subsection \<open>Dispatch\<close>

text \<open>
  \<^verbatim>\<open>(this as any)[intrinsic.name]\<close> reads a member of the \<^verbatim>\<open>CfnIntrinsics\<close> object
  by its name: one of the six handlers, the method \<^verbatim>\<open>evaluateIntrinsic\<close> itself, or a
  member inherited from \<^verbatim>\<open>Object.prototype\<close>.
\<close>

datatype handler = Handler_Join | Handler_Split | Handler_Select | Handler_Ref
  | Handler_GetAtt | Handler_Sub

datatype member = Registered handler | Method_evaluateIntrinsic | Prototype_member

definition CfnIntrinsics_methods :: "(string \<times> member) list" where
  "CfnIntrinsics_methods =
     [(''evaluateIntrinsic'', Method_evaluateIntrinsic),
      (''Fn::Join'', Registered Handler_Join),
      (''Fn::Split'', Registered Handler_Split),
      (''Fn::Select'', Registered Handler_Select),
      (''Ref'', Registered Handler_Ref),
      (''Fn::GetAtt'', Registered Handler_GetAtt),
      (''Fn::Sub'', Registered Handler_Sub)]"

definition intrinsicFunc :: "string \<Rightarrow> member option" where
  "intrinsicFunc n =
     (case get_property CfnIntrinsics_methods n of
        Own m \<Rightarrow> Some m
      | Inherited \<Rightarrow> Some Prototype_member
      | Absent \<Rightarrow> None)"

definition unsupported_intrinsic_message :: "string \<Rightarrow> string" where
  "unsupported_intrinsic_message n = ''CloudFormation function '' @ n @ '' is not supported''"

definition argsAsArray_of :: "jv \<Rightarrow> jv list" where
  "argsAsArray_of a = (case a of JArr xs \<Rightarrow> xs | _ \<Rightarrow> [a])"

definition apply_handler ::
    "EvaluateCloudFormationTemplate \<Rightarrow> (jv \<Rightarrow> error + jv) \<Rightarrow> handler \<Rightarrow> jv list \<Rightarrow> error + jv" where
  "apply_handler this self_evaluateCfnExpression h argsAsArray =
     (case h of
        Handler_Join \<Rightarrow> Fn_Join self_evaluateCfnExpression argsAsArray
      | Handler_Split \<Rightarrow> Fn_Split self_evaluateCfnExpression argsAsArray
      | Handler_Select \<Rightarrow> Fn_Select self_evaluateCfnExpression argsAsArray
      | Handler_Ref \<Rightarrow> Ref this argsAsArray
      | Handler_GetAtt \<Rightarrow> Fn_GetAtt this argsAsArray
      | Handler_Sub \<Rightarrow> Fn_Sub this self_evaluateCfnExpression argsAsArray)"

definition evaluateIntrinsic ::
    "EvaluateCloudFormationTemplate \<Rightarrow> (jv \<Rightarrow> error + jv) \<Rightarrow> Intrinsic \<Rightarrow> error + jv" where
  "evaluateIntrinsic this self_evaluateCfnExpression intrinsic =
     (case intrinsicFunc (name intrinsic) of
        None \<Rightarrow> Inl (CfnEvaluationException (unsupported_intrinsic_message (name intrinsic)))
      | Some (Registered h) \<Rightarrow>
          apply_handler this self_evaluateCfnExpression h (argsAsArray_of (args intrinsic))
      | Some _ \<Rightarrow> Inl Unmodelled)"

section \<open>The expression evaluator\<close>

definition parseIntrinsic :: "(string \<times> jv) list \<Rightarrow> Intrinsic option" where
  "parseIntrinsic x =
     (let keys = map fst x
      in if length keys = 1 \<and> (startsWith (keys ! 0) ''Fn::'' \<or> keys ! 0 = ''Ref'')
         then Some \<lparr> name = keys ! 0, args = snd (x ! 0) \<rparr>
         else None)"

text \<open>
  The loop over \<^verbatim>\<open>Object.entries(cfnExpression)\<close> that fills \<^verbatim>\<open>ret\<close>: one value
  awaited after the other.
\<close>

fun evaluate_entries ::
    "(jv \<Rightarrow> error + jv) \<Rightarrow> (string \<times> jv) list \<Rightarrow> (string \<times> jv) list
       \<Rightarrow> error + (string \<times> jv) list" where
  "evaluate_entries self_evaluateCfnExpression [] ret = Inr ret"
| "evaluate_entries self_evaluateCfnExpression ((key, val) # entries) ret =
     bind_result (self_evaluateCfnExpression val) (\<lambda>v.
     bind_result (obj_assign ret key v) (\<lambda>ret'.
       evaluate_entries self_evaluateCfnExpression entries ret'))"

lemma evaluate_entries_cong [fundef_cong]:
  assumes "entries = entries'" "ret = ret'"
    and "\<And>k v. (k, v) \<in> set entries' \<Longrightarrow> f v = g v"
  shows "evaluate_entries f entries ret = evaluate_entries g entries' ret'"
  using assms(3) unfolding assms(1,2)
proof (induction entries' arbitrary: ret')
  case Nil
  then show ?case by simp
next
  case (Cons e es)
  obtain k v where e: "e = (k, v)" by (cases e)
  have "f v = g v" using Cons.prems [of k v] e by simp
  moreover have "evaluate_entries f es = evaluate_entries g es"
  proof (rule ext, rule Cons.IH)
    fix k' v' assume "(k', v') \<in> set es"
    then show "f v' = g v'" using Cons.prems [of k' v'] by simp
  qed
  ultimately show ?case by (simp add: e)
qed

lemma evaluateIntrinsic_cong [fundef_cong]:
  assumes "intrinsic = intrinsic'"
    and "\<And>x. x = arg (argsAsArray_of (args intrinsic')) 1 \<Longrightarrow> f x = g x"
  shows "evaluateIntrinsic this f intrinsic = evaluateIntrinsic this g intrinsic'"
proof -
  have "apply_handler this f h (argsAsArray_of (args intrinsic'))
      = apply_handler this g h (argsAsArray_of (args intrinsic'))" for h
    using assms(2)
    by (cases h) (simp_all add: apply_handler_def Fn_Join_def Fn_Split_def Fn_Select_def
        Fn_Sub_def Let_def)
  then show ?thesis
    unfolding assms(1) evaluateIntrinsic_def by (simp split: option.splits member.splits)
qed

lemma size_arg_1:
  "size (arg (argsAsArray_of a) 1) \<le> size a"
proof (cases a)
  case (JArr xs)
  show ?thesis
  proof (cases "1 < length xs")
    case True
    then have "xs ! 1 \<in> set xs" by simp
    then have "size (xs ! 1) \<le> size_list size xs"
      by (simp add: size_list_estimation')
    then show ?thesis using JArr True by (simp add: arg_def argsAsArray_of_def)
  next
    case False
    then show ?thesis using JArr by (simp add: arg_def argsAsArray_of_def)
  qed
qed (simp_all add: arg_def argsAsArray_of_def)

lemma parseIntrinsic_size:
  "parseIntrinsic x = Some intrinsic \<Longrightarrow> size (args intrinsic) < size (JObj x)"
proof -
  assume p: "parseIntrinsic x = Some intrinsic"
  then obtain k v where x: "x = [(k, v)]"
    by (cases x; cases "tl x") (auto simp: parseIntrinsic_def Let_def split: if_splits)
  with p have "args intrinsic = v"
    by (auto simp: parseIntrinsic_def Let_def split: if_splits)
  with x show ?thesis by simp
qed

function evaluateCfnExpression :: "EvaluateCloudFormationTemplate \<Rightarrow> jv \<Rightarrow> error + jv" where
  "evaluateCfnExpression this JUndefined = Inr JUndefined"
| "evaluateCfnExpression this JNull = Inr JNull"
| "evaluateCfnExpression this (JArr xs) =
     bind_result (Promise_all (map (evaluateCfnExpression this) xs)) (\<lambda>vs. Inr (JArr vs))"
| "evaluateCfnExpression this (JObj x) =
     (case parseIntrinsic x of
        Some intrinsic \<Rightarrow> evaluateIntrinsic this (evaluateCfnExpression this) intrinsic
      | None \<Rightarrow>
          bind_result (evaluate_entries (evaluateCfnExpression this) x []) (\<lambda>ret. Inr (JObj ret)))"
| "evaluateCfnExpression this (JBool b) = Inr (JBool b)"
| "evaluateCfnExpression this (JNum n) = Inr (JNum n)"
| "evaluateCfnExpression this (JStr s) = Inr (JStr s)"
  by pat_completeness auto
termination
proof (relation "measure (\<lambda>(this, e). size e)")
  show "wf (measure (\<lambda>(this, e). size e))" by simp
next
  fix this :: EvaluateCloudFormationTemplate and xs :: "jv list" and x :: jv
  assume "x \<in> set xs"
  then have "size x \<le> size_list size xs" by (simp add: size_list_estimation')
  then show "((this, x), this, JArr xs) \<in> measure (\<lambda>(this, e). size e)" by simp
next
  fix this :: EvaluateCloudFormationTemplate and x :: "(string \<times> jv) list"
    and intrinsic :: Intrinsic and y :: jv
  assume "parseIntrinsic x = Some intrinsic" "y = arg (argsAsArray_of (args intrinsic)) 1"
  then show "((this, y), this, JObj x) \<in> measure (\<lambda>(this, e). size e)"
    using size_arg_1 [of "args intrinsic"] parseIntrinsic_size [of x intrinsic] by simp
next
  fix this :: EvaluateCloudFormationTemplate and x :: "(string \<times> jv) list"
    and k :: string and v :: jv
  assume "parseIntrinsic x = None" "(k, v) \<in> set x"
  then have "size_prod (\<lambda>_. 0) size (k, v) \<le> size_list (size_prod (\<lambda>_. 0) size) x"
    by (simp add: size_list_estimation')
  then show "((this, v), this, JObj x) \<in> measure (\<lambda>(this, e). size e)" by simp
qed

declare evaluateCfnExpression.simps(4) [simp del]
declare split_loop.simps [simp del]
declare show_nat.simps [simp del]
declare replace_loop.simps [simp del]

section \<open>Notions of the specification\<close>

text \<open>
  The definitions of this section follow the words of the specification, not the code;
  the theorems below compare the code with them. (The one exception is the cut of a
  template into segments, which is the cut the code's scan makes; the theorem
  \<open>Sub_resolution\<close> says what the segments are.)

  An expression tree without intrinsic node: no mapping, at any depth, is an intrinsic
  node (a mapping whose single key is \<^verbatim>\<open>Ref\<close> or starts with \<^verbatim>\<open>Fn::\<close>).
\<close>

fun no_intrinsic :: "jv \<Rightarrow> bool" where
  "no_intrinsic (JArr xs) = list_all no_intrinsic xs"
| "no_intrinsic (JObj x) = (parseIntrinsic x = None \<and> list_all no_intrinsic (map snd x))"
| "no_intrinsic v = True"

text \<open>
  The data model of an expression: the keys of a mapping are unique. \<open>well_formed\<close>
  also says that no mapping has the key \<^verbatim>\<open>__proto__\<close>, which the assignment of
  line 125 does not store like the others.
\<close>

fun well_formed :: "jv \<Rightarrow> bool" where
  "well_formed (JArr xs) = list_all well_formed xs"
| "well_formed (JObj x) =
     (distinct (map fst x) \<and> ''__proto__'' \<notin> set (map fst x)
      \<and> list_all well_formed (map snd x))"
| "well_formed v = True"

text \<open>
  The template of \<^verbatim>\<open>Fn::Sub\<close> as a sequence of segments, in the order of the text:
  literal segments and placeholders \<^verbatim>\<open>${key}\<close>, cut where the scan of
  \<^verbatim>\<open>asyncGlobalReplace\<close> finds its matches.
\<close>

datatype segment = Literal string | Placeholder string

function segments :: "string \<Rightarrow> segment list" where
  "segments s =
     (case regex_exec s of
        None \<Rightarrow> [Literal s]
      | Some (pre, key, rest) \<Rightarrow> Literal pre # Placeholder key # segments rest)"
  by pat_completeness auto
termination
  by (relation "measure length") (auto dest: regex_exec_shorter)

declare segments.simps [simp del]

fun segment_text :: "segment \<Rightarrow> string" where
  "segment_text (Literal l) = l"
| "segment_text (Placeholder key) = ''${'' @ key @ ''}''"

fun placeholder_keys :: "segment list \<Rightarrow> string list" where
  "placeholder_keys [] = []"
| "placeholder_keys (Literal l # segs) = placeholder_keys segs"
| "placeholder_keys (Placeholder key # segs) = key # placeholder_keys segs"

text \<open>
  The three rules for one placeholder: the value of the explicit placeholder when the
  key is in that mapping; else \<^verbatim>\<open>Ref(key)\<close> when the key has no dot; else
  \<^verbatim>\<open>Fn::GetAtt\<close> of the part before the first dot and of everything after it.
\<close>

definition resolve_placeholder ::
    "EvaluateCloudFormationTemplate \<Rightarrow> (string \<times> jv) list \<Rightarrow> string \<Rightarrow> error + jv" where
  "resolve_placeholder this placeholders key =
     (case map_of placeholders key of
        Some v \<Rightarrow> Inr v
      | None \<Rightarrow>
          if CHR ''.'' \<notin> set key then evaluateCfnExpression this (JObj [(''Ref'', JStr key)])
          else evaluateCfnExpression this
                 (JObj [(''Fn::GetAtt'',
                    JArr [JStr (takeWhile (\<lambda>c. c \<noteq> CHR ''.'') key),
                          JStr (tl (dropWhile (\<lambda>c. c \<noteq> CHR ''.'') key))])]))"

text \<open>
  The segments resolved from left to right: a literal stays, a placeholder is resolved,
  and the first placeholder that fails ends the resolution with its error.
\<close>

fun resolve_in_order :: "(string \<Rightarrow> error + jv) \<Rightarrow> segment list \<Rightarrow> error + jv list" where
  "resolve_in_order resolve [] = Inr []"
| "resolve_in_order resolve (Literal l # segs) =
     bind_result (resolve_in_order resolve segs) (\<lambda>pieces. Inr (JStr l # pieces))"
| "resolve_in_order resolve (Placeholder key # segs) =
     bind_result (resolve key) (\<lambda>v.
     bind_result (resolve_in_order resolve segs) (\<lambda>pieces. Inr (v # pieces)))"

text \<open>
  The result of \<^verbatim>\<open>Fn::Sub\<close>: the texts of the resolved pieces, concatenated in the
  order of the template.
\<close>

definition Sub_spec ::
    "EvaluateCloudFormationTemplate \<Rightarrow> (string \<times> jv) list \<Rightarrow> string \<Rightarrow> error + jv" where
  "Sub_spec this placeholders template =
     bind_result (resolve_in_order (resolve_placeholder this placeholders) (segments template))
       (\<lambda>pieces.
          bind_result (Promise_all (map join_element pieces)) (\<lambda>texts.
            Inr (JStr (concat texts))))"

section \<open>An example session\<close>

text \<open>
  The session of the examples: account \<^verbatim>\<open>123456789012\<close>, partition \<^verbatim>\<open>aws\<close>, the
  parameter \<^verbatim>\<open>Foo\<close>, three parameters whose value is the empty string, and an inventory
  of five resources.
\<close>

definition example_resources :: "StackResourceSummary list" where
  "example_resources =
     [\<lparr> LogicalResourceId = ''MyRole'', PhysicalResourceId = Some ''role-1'',
        ResourceType = ''AWS::IAM::Role'' \<rparr>,
      \<lparr> LogicalResourceId = ''MyBucket'', PhysicalResourceId = Some ''my-bucket-1'',
        ResourceType = ''AWS::S3::Bucket'' \<rparr>,
      \<lparr> LogicalResourceId = ''MyFunction'', PhysicalResourceId = Some ''fn-1'',
        ResourceType = ''AWS::Lambda::Function'' \<rparr>,
      \<lparr> LogicalResourceId = ''MyQueue'', PhysicalResourceId = Some ''queue-1'',
        ResourceType = ''AWS::SQS::Queue'' \<rparr>,
      \<lparr> LogicalResourceId = ''Stage'', PhysicalResourceId = Some ''stage-1'',
        ResourceType = ''AWS::ApiGateway::Stage'' \<rparr>]"

definition example_props :: EvaluateCloudFormationTemplateProps where
  "example_props =
     \<lparr> props_parameters = [(''Foo'', ''bar''), (''Stage'', []), (''Suffix'', []), (''Prefix'', []),
         (''AWS::Region'', ''eu-west-1'')],
       props_account = ''123456789012'',
       props_region = ''us-east-1'',
       props_partition = ''aws'',
       props_urlSuffix = ''amazonaws.com'',
       props_listStackResources = Inr example_resources \<rparr>"

definition example_session :: EvaluateCloudFormationTemplate where
  "example_session = new_EvaluateCloudFormationTemplate example_props"

text \<open>
  The same session for a template that declares one parameter, of the name
  \<^verbatim>\<open>constructor\<close>, with the value \<^verbatim>\<open>acme\<close>.
\<close>

definition shadowing_props :: EvaluateCloudFormationTemplateProps where
  "shadowing_props = example_props \<lparr> props_parameters := [(''constructor'', ''acme'')] \<rparr>"

definition shadowing_session :: EvaluateCloudFormationTemplate where
  "shadowing_session = new_EvaluateCloudFormationTemplate shadowing_props"

section \<open>Properties of the objects and of the dispatch\<close>

lemma map_of_obj_define: "map_of (obj_define obj k v) = (map_of obj)(k \<mapsto> v)"
  by (induction obj) (auto simp: fun_eq_iff)

lemma map_of_spread: "map_of (spread obj src) = map_of obj ++ map_of (rev src)"
  unfolding spread_def
proof (induction src arbitrary: obj)
  case Nil
  then show ?case by simp
next
  case (Cons e es)
  obtain k v where e: "e = (k, v)" by (cases e)
  show ?case
    by (simp add: e Cons.IH map_of_obj_define map_add_def fun_eq_iff split: option.splits)
qed

lemma obj_define_new: "k \<notin> fst ` set obj \<Longrightarrow> obj_define obj k v = obj @ [(k, v)]"
  by (induction obj) auto

lemma prototype_names_not_intrinsic:
  "\<forall>m \<in> set Object_prototype. \<not> (startsWith m ''Fn::'' \<or> m = ''Ref'')"
  by (simp add: Object_prototype_def startsWith_def)

lemma intrinsic_name_not_inherited:
  "startsWith n ''Fn::'' \<or> n = ''Ref'' \<Longrightarrow> n \<notin> set Object_prototype"
  using prototype_names_not_intrinsic by blast

lemma methods_intrinsic_names:
  "map_of CfnIntrinsics_methods n = Some m \<Longrightarrow> startsWith n ''Fn::'' \<or> n = ''Ref''
    \<Longrightarrow> n \<in> {''Ref'', ''Fn::Join'', ''Fn::Split'', ''Fn::Select'', ''Fn::GetAtt'', ''Fn::Sub''}"
  by (simp add: CfnIntrinsics_methods_def startsWith_def split: if_splits)

lemma unregistered_name_lookup:
  assumes "startsWith n ''Fn::'' \<or> n = ''Ref''"
    and "n \<notin> {''Ref'', ''Fn::Join'', ''Fn::Split'', ''Fn::Select'', ''Fn::GetAtt'', ''Fn::Sub''}"
  shows "intrinsicFunc n = None"
proof (cases "map_of CfnIntrinsics_methods n")
  case None
  then show ?thesis using intrinsic_name_not_inherited [OF assms(1)]
    by (simp add: intrinsicFunc_def get_property_def)
next
  case (Some m)
  from methods_intrinsic_names [OF Some assms(1)] assms(2) show ?thesis by blast
qed

lemma registered_lookup:
  "intrinsicFunc ''Fn::Join'' = Some (Registered Handler_Join)"
  "intrinsicFunc ''Fn::Split'' = Some (Registered Handler_Split)"
  "intrinsicFunc ''Fn::Select'' = Some (Registered Handler_Select)"
  "intrinsicFunc ''Ref'' = Some (Registered Handler_Ref)"
  "intrinsicFunc ''Fn::GetAtt'' = Some (Registered Handler_GetAtt)"
  "intrinsicFunc ''Fn::Sub'' = Some (Registered Handler_Sub)"
  by (simp_all add: intrinsicFunc_def get_property_def CfnIntrinsics_methods_def)

text \<open>A mapping with one key: the intrinsic node, or the plain object.\<close>

lemma evaluate_single_key:
  "evaluateCfnExpression this (JObj [(n, a)]) =
     (if startsWith n ''Fn::'' \<or> n = ''Ref''
      then evaluateIntrinsic this (evaluateCfnExpression this) \<lparr> name = n, args = a \<rparr>
      else bind_result (evaluateCfnExpression this a) (\<lambda>v.
           bind_result (obj_assign [] n v) (\<lambda>ret. Inr (JObj ret))))"
  by (simp add: evaluateCfnExpression.simps(4) parseIntrinsic_def bind_result_def
      split: sum.splits)

lemma evaluate_Select:
  "evaluateCfnExpression this (JObj [(''Fn::Select'', JArr [index, list])]) =
     bind_result (evaluateCfnExpression this list)
       (\<lambda>evaluatedArgs. element_at evaluatedArgs index)"
  by (simp add: evaluate_single_key startsWith_def evaluateIntrinsic_def registered_lookup
      apply_handler_def argsAsArray_of_def Fn_Select_def arg_def)

lemma evaluate_Ref:
  "evaluateCfnExpression this (JObj [(''Ref'', JStr logicalId)]) = Ref this [JStr logicalId]"
  by (simp add: evaluate_single_key evaluateIntrinsic_def registered_lookup
      apply_handler_def argsAsArray_of_def)

lemma evaluate_GetAtt:
  "evaluateCfnExpression this (JObj [(''Fn::GetAtt'', JArr [JStr logicalId, JStr attributeName])])
     = Fn_GetAtt_strings this logicalId (Some attributeName)"
  by (simp add: evaluate_single_key startsWith_def evaluateIntrinsic_def registered_lookup
      apply_handler_def argsAsArray_of_def Fn_GetAtt_def arg_def)

lemma segment_lower_table:
  "segment_lower ''AWS::IAM::Role'' (Suc 0) = Inr ''iam''"
  "segment_lower ''AWS::IAM::Role'' 2 = Inr ''role''"
  "segment_lower ''AWS::IAM::User'' (Suc 0) = Inr ''iam''"
  "segment_lower ''AWS::IAM::User'' 2 = Inr ''user''"
  "segment_lower ''AWS::IAM::Group'' (Suc 0) = Inr ''iam''"
  "segment_lower ''AWS::IAM::Group'' 2 = Inr ''group''"
  "segment_lower ''AWS::S3::Bucket'' (Suc 0) = Inr ''s3''"
  "segment_lower ''AWS::S3::Bucket'' 2 = Inr ''bucket''"
  "segment_lower ''AWS::Lambda::Function'' (Suc 0) = Inr ''lambda''"
  "segment_lower ''AWS::Lambda::Function'' 2 = Inr ''function''"
  by code_simp+

lemmas format_simps = formatResourceAttribute_def get_property_def
  RESOURCE_TYPE_ATTRIBUTES_FORMATS_def getServiceOfResource_def
  getResourceTypeArnPartOfResource_def segment_lower_table bind_result_def

lemma format_iam:
  assumes "(kind, tag) \<in> {(''AWS::IAM::Role'', ''role''), (''AWS::IAM::User'', ''user''),
      (''AWS::IAM::Group'', ''group'')}" and "ResourceType r = kind"
  shows "formatResourceAttribute this r (Some ''Arn'') =
     Inr (Some (''arn:'' @ this_partition this @ '':iam::'' @ this_account this @ '':'' @ tag
       @ ''/'' @ physicalId_text (PhysicalResourceId r)))"
  using assms by (auto simp: format_simps iamArnFmt_def)

lemma format_bucket:
  assumes "ResourceType r = ''AWS::S3::Bucket''"
  shows "formatResourceAttribute this r (Some ''Arn'') =
     Inr (Some (''arn:'' @ this_partition this @ '':s3:::''
       @ physicalId_text (PhysicalResourceId r)))"
  using assms by (simp add: format_simps s3ArnFmt_def)

lemma format_function:
  assumes "ResourceType r = ''AWS::Lambda::Function''"
  shows "formatResourceAttribute this r (Some ''Arn'') =
     Inr (Some (''arn:'' @ this_partition this @ '':lambda:'' @ this_region this @ '':''
       @ this_account this @ '':function:'' @ physicalId_text (PhysicalResourceId r)))"
  using assms by (simp add: format_simps stdColonResourceArnFmt_def)

section \<open>The identifier shapes\<close>

text \<open>
  Claim C5. A \<^verbatim>\<open>Fn::GetAtt\<close> of the attribute \<^verbatim>\<open>Arn\<close> that reaches the formatter
  table gives the identifier in the shape registered for the kind of the resource: for
  an IAM role, user or group \<^verbatim>\<open>arn:<partition>:iam::<account>:<kindTag>/<name>\<close>,
  without region; for an S3 bucket \<^verbatim>\<open>arn:<partition>:s3:::<name>\<close>, without region,
  account and kind tag; for a Lambda function the full
  \<^verbatim>\<open>arn:<partition>:lambda:<region>:<account>:function:<name>\<close>. Service and kind
  tag are the second and third segment of the kind, in lower case.
\<close>

theorem GetAtt_Arn_shapes:
  assumes "this_stackResources this = Inr rs" and "find_resource rs logicalId = Some r"
  shows "(ResourceType r = ''AWS::IAM::Role'' \<longrightarrow>
            evaluateCfnExpression this (JObj [(''Fn::GetAtt'', JArr [JStr logicalId, JStr ''Arn''])])
              = Inr (JStr (''arn:'' @ this_partition this @ '':iam::'' @ this_account this
                  @ '':role/'' @ physicalId_text (PhysicalResourceId r))))
       \<and> (ResourceType r = ''AWS::IAM::User'' \<longrightarrow>
            evaluateCfnExpression this (JObj [(''Fn::GetAtt'', JArr [JStr logicalId, JStr ''Arn''])])
              = Inr (JStr (''arn:'' @ this_partition this @ '':iam::'' @ this_account this
                  @ '':user/'' @ physicalId_text (PhysicalResourceId r))))
       \<and> (ResourceType r = ''AWS::IAM::Group'' \<longrightarrow>
            evaluateCfnExpression this (JObj [(''Fn::GetAtt'', JArr [JStr logicalId, JStr ''Arn''])])
              = Inr (JStr (''arn:'' @ this_partition this @ '':iam::'' @ this_account this
                  @ '':group/'' @ physicalId_text (PhysicalResourceId r))))
       \<and> (ResourceType r = ''AWS::S3::Bucket'' \<longrightarrow>
            evaluateCfnExpression this (JObj [(''Fn::GetAtt'', JArr [JStr logicalId, JStr ''Arn''])])
              = Inr (JStr (''arn:'' @ this_partition this @ '':s3:::''
                  @ physicalId_text (PhysicalResourceId r))))
       \<and> (ResourceType r = ''AWS::Lambda::Function'' \<longrightarrow>
            evaluateCfnExpression this (JObj [(''Fn::GetAtt'', JArr [JStr logicalId, JStr ''Arn''])])
              = Inr (JStr (''arn:'' @ this_partition this @ '':lambda:'' @ this_region this
                  @ '':'' @ this_account this @ '':function:''
                  @ physicalId_text (PhysicalResourceId r))))"
proof -
  have step: "evaluateCfnExpression this (JObj [(''Fn::GetAtt'', JArr [JStr logicalId, JStr ''Arn''])])
      = Inr (JStr v)"
    if "formatResourceAttribute this r (Some ''Arn'') = Inr (Some v)" and "v \<noteq> []" for v
    using that assms
    by (simp add: evaluate_GetAtt Fn_GetAtt_strings_def findGetAttTarget_def bind_result_def)
  show ?thesis
  proof (intro conjI impI)
    assume "ResourceType r = ''AWS::IAM::Role''"
    then show "evaluateCfnExpression this (JObj [(''Fn::GetAtt'', JArr [JStr logicalId, JStr ''Arn''])])
        = Inr (JStr (''arn:'' @ this_partition this @ '':iam::'' @ this_account this
            @ '':role/'' @ physicalId_text (PhysicalResourceId r)))"
      using format_iam [of "''AWS::IAM::Role''" "''role''" r this] by (intro step) simp_all
  next
    assume "ResourceType r = ''AWS::IAM::User''"
    then show "evaluateCfnExpression this (JObj [(''Fn::GetAtt'', JArr [JStr logicalId, JStr ''Arn''])])
        = Inr (JStr (''arn:'' @ this_partition this @ '':iam::'' @ this_account this
            @ '':user/'' @ physicalId_text (PhysicalResourceId r)))"
      using format_iam [of "''AWS::IAM::User''" "''user''" r this] by (intro step) simp_all
  next
    assume "ResourceType r = ''AWS::IAM::Group''"
    then show "evaluateCfnExpression this (JObj [(''Fn::GetAtt'', JArr [JStr logicalId, JStr ''Arn''])])
        = Inr (JStr (''arn:'' @ this_partition this @ '':iam::'' @ this_account this
            @ '':group/'' @ physicalId_text (PhysicalResourceId r)))"
      using format_iam [of "''AWS::IAM::Group''" "''group''" r this] by (intro step) simp_all
  next
    assume "ResourceType r = ''AWS::S3::Bucket''"
    then show "evaluateCfnExpression this (JObj [(''Fn::GetAtt'', JArr [JStr logicalId, JStr ''Arn''])])
        = Inr (JStr (''arn:'' @ this_partition this @ '':s3:::''
            @ physicalId_text (PhysicalResourceId r)))"
      using format_bucket [of r this] by (intro step) simp_all
  next
    assume "ResourceType r = ''AWS::Lambda::Function''"
    then show "evaluateCfnExpression this (JObj [(''Fn::GetAtt'', JArr [JStr logicalId, JStr ''Arn''])])
        = Inr (JStr (''arn:'' @ this_partition this @ '':lambda:'' @ this_region this
            @ '':'' @ this_account this @ '':function:''
            @ physicalId_text (PhysicalResourceId r)))"
      using format_function [of r this] by (intro step) simp_all
  qed
qed

text \<open>
  The examples of the role, the bucket and the function in the example session: each
  kind meets its own implication of the theorem, with the inventory found as assumed.
\<close>

theorem GetAtt_Arn_shapes_witness:
  "evaluateCfnExpression example_session
       (JObj [(''Fn::GetAtt'', JArr [JStr ''MyRole'', JStr ''Arn''])])
     = Inr (JStr ''arn:aws:iam::123456789012:role/role-1'')
   \<and> evaluateCfnExpression example_session
       (JObj [(''Fn::GetAtt'', JArr [JStr ''MyBucket'', JStr ''Arn''])])
     = Inr (JStr ''arn:aws:s3:::my-bucket-1'')
   \<and> evaluateCfnExpression example_session
       (JObj [(''Fn::GetAtt'', JArr [JStr ''MyFunction'', JStr ''Arn''])])
     = Inr (JStr ''arn:aws:lambda:us-east-1:123456789012:function:fn-1'')"
proof -
  have inv: "this_stackResources example_session = Inr example_resources"
    by (simp add: example_session_def new_EvaluateCloudFormationTemplate_def example_props_def)
  have sess: "this_partition example_session = ''aws''"
    "this_account example_session = ''123456789012''"
    "this_region example_session = ''us-east-1''"
    by (simp_all add: example_session_def new_EvaluateCloudFormationTemplate_def example_props_def)
  have role: "find_resource example_resources ''MyRole'' = Some (example_resources ! 0)"
    and bucket: "find_resource example_resources ''MyBucket'' = Some (example_resources ! 1)"
    and func: "find_resource example_resources ''MyFunction'' = Some (example_resources ! 2)"
    by (simp_all add: find_resource_def example_resources_def)
  show ?thesis
    using GetAtt_Arn_shapes [OF inv role] GetAtt_Arn_shapes [OF inv bucket]
      GetAtt_Arn_shapes [OF inv func]
    by (simp add: sess example_resources_def physicalId_text_def)
qed

section \<open>Attributes of an unsupported kind\<close>

text \<open>
  Claim C7, as the code has it. \<^verbatim>\<open>Fn::GetAtt\<close> with a non-empty attribute name, on a
  logical id whose first record in the inventory (the inventory call succeeding) has a
  kind that is not in \<^verbatim>\<open>RESOURCE_TYPE_ATTRIBUTES_FORMATS\<close> and is not the name of a
  member inherited from \<^verbatim>\<open>Object.prototype\<close>: the evaluation fails with the
  \<^verbatim>\<open>CfnEvaluationException\<close> that \<^verbatim>\<open>formatResourceAttribute\<close> throws, which
  \<^verbatim>\<open>findGetAttTarget\<close> and the handler pass on. The exception has no field but the
  message of \<^verbatim>\<open>Error\<close>: the kind stands inside the text of the message, between
  quotes, and the message is never the kind alone.
\<close>

theorem unsupported_kind_exception:
  assumes "this_stackResources this = Inr rs"
    and "find_resource rs logicalId = Some r"
    and "map_of RESOURCE_TYPE_ATTRIBUTES_FORMATS (ResourceType r) = None"
    and "ResourceType r \<notin> set Object_prototype"
    and "attribute \<noteq> []"
  shows "evaluateCfnExpression this
             (JObj [(''Fn::GetAtt'', JArr [JStr logicalId, JStr attribute])])
           = Inl (CfnEvaluationException (unsupported_kind_message (ResourceType r)))
       \<and> formatResourceAttribute this r (Some attribute)
           = Inl (CfnEvaluationException (unsupported_kind_message (ResourceType r)))
       \<and> unsupported_kind_message (ResourceType r)
           = ''We don't support attributes of the '' @ [CHR 0x27] @ ResourceType r @ [CHR 0x27]
             @ '' resource. This is a CDK limitation. Please report it at https://github.com/aws/aws-cdk/issues/new/choose''
       \<and> message (CfnEvaluationException (unsupported_kind_message (ResourceType r)))
           \<noteq> ResourceType r"
proof -
  have "length (unsupported_kind_message (ResourceType r)) \<noteq> length (ResourceType r)"
    by (simp add: unsupported_kind_message_def quoted_def)
  then have differ: "unsupported_kind_message (ResourceType r) \<noteq> ResourceType r"
    by metis
  have helper: "formatResourceAttribute this r (Some attribute)
      = Inl (CfnEvaluationException (unsupported_kind_message (ResourceType r)))"
    using assms(3,4,5) by (simp add: formatResourceAttribute_def get_property_def)
  have whole: "evaluateCfnExpression this
        (JObj [(''Fn::GetAtt'', JArr [JStr logicalId, JStr attribute])])
      = Inl (CfnEvaluationException (unsupported_kind_message (ResourceType r)))"
    using assms(1,2) helper
    by (simp add: evaluate_GetAtt Fn_GetAtt_strings_def findGetAttTarget_def bind_result_def)
  have shape: "unsupported_kind_message (ResourceType r)
      = ''We don't support attributes of the '' @ [CHR 0x27] @ ResourceType r @ [CHR 0x27]
        @ '' resource. This is a CDK limitation. Please report it at https://github.com/aws/aws-cdk/issues/new/choose''"
    by (simp add: unsupported_kind_message_def quoted_def report_it_def)
  show ?thesis
    using whole helper shape differ by simp
qed

text \<open>
  The queue of the example session, asked for its \<^verbatim>\<open>Arn\<close>.
\<close>

theorem unsupported_kind_exception_witness:
  "evaluateCfnExpression example_session
       (JObj [(''Fn::GetAtt'', JArr [JStr ''MyQueue'', JStr ''Arn''])])
     = Inl (CfnEvaluationException
         ''We don't support attributes of the 'AWS::SQS::Queue' resource. This is a CDK limitation. Please report it at https://github.com/aws/aws-cdk/issues/new/choose'')
   \<and> formatResourceAttribute example_session (example_resources ! 3) (Some ''Arn'')
     = Inl (CfnEvaluationException
         ''We don't support attributes of the 'AWS::SQS::Queue' resource. This is a CDK limitation. Please report it at https://github.com/aws/aws-cdk/issues/new/choose'')"
proof -
  have inventory: "this_stackResources example_session = Inr example_resources"
    by (simp add: example_session_def new_EvaluateCloudFormationTemplate_def example_props_def)
  have found: "find_resource example_resources ''MyQueue'' = Some (example_resources ! 3)"
    by (simp add: find_resource_def example_resources_def)
  have kind: "ResourceType (example_resources ! 3) = ''AWS::SQS::Queue''"
    by (simp add: example_resources_def)
  have absent: "map_of RESOURCE_TYPE_ATTRIBUTES_FORMATS (ResourceType (example_resources ! 3)) = None"
    unfolding kind by (simp add: RESOURCE_TYPE_ATTRIBUTES_FORMATS_def)
  have own: "ResourceType (example_resources ! 3) \<notin> set Object_prototype"
    unfolding kind by (simp add: Object_prototype_def)
  have attr: "''Arn'' \<noteq> []" by simp
  show ?thesis
    using unsupported_kind_exception [OF inventory found absent own attr]
    by (simp add: kind)
qed

text \<open>
  The claim as stated asks for the kind in a field of the error. The evaluation of
  \<^verbatim>\<open>{"Fn::GetAtt": ["MyQueue", "Arn"]}\<close> in the example session fails with the
  exception and its message, and that message, the one thing the exception carries, is
  not the kind.
\<close>

theorem unsupported_kind_field_counterexample:
  "evaluateCfnExpression example_session
       (JObj [(''Fn::GetAtt'', JArr [JStr ''MyQueue'', JStr ''Arn''])])
     = Inl (CfnEvaluationException
         ''We don't support attributes of the 'AWS::SQS::Queue' resource. This is a CDK limitation. Please report it at https://github.com/aws/aws-cdk/issues/new/choose'')
   \<and> message (CfnEvaluationException
         ''We don't support attributes of the 'AWS::SQS::Queue' resource. This is a CDK limitation. Please report it at https://github.com/aws/aws-cdk/issues/new/choose'')
     \<noteq> ''AWS::SQS::Queue''"
  by (simp add: evaluate_GetAtt Fn_GetAtt_strings_def findGetAttTarget_def bind_result_def
      example_session_def new_EvaluateCloudFormationTemplate_def example_props_def
      find_resource_def example_resources_def
      formatResourceAttribute_def get_property_def RESOURCE_TYPE_ATTRIBUTES_FORMATS_def
      Object_prototype_def unsupported_kind_message_def quoted_def report_it_def)

section \<open>\<^verbatim>\<open>Fn::Select\<close>\<close>

text \<open>
  Claim C3, as the code has it. When the list argument of \<^verbatim>\<open>Fn::Select\<close> evaluates to
  a sequence of length \<open>n\<close>, an index inside \<open>[0, n)\<close> gives the element at that
  index, and an index outside gives \<^verbatim>\<open>undefined\<close>: the evaluation succeeds, no error
  is raised.
\<close>

theorem Select_element_or_undefined:
  assumes "evaluateCfnExpression this list = Inr (JArr vs)"
  shows "evaluateCfnExpression this (JObj [(''Fn::Select'', JArr [JNum i, list])]) =
     (if 0 \<le> i \<and> i < int (length vs) then Inr (vs ! nat i) else Inr JUndefined)"
  using assms by (auto simp add: evaluate_Select bind_result_def)

theorem Select_element_or_undefined_witness:
  "evaluateCfnExpression example_session (JArr [JStr ''x'', JStr ''y'', JStr ''z''])
     = Inr (JArr [JStr ''x'', JStr ''y'', JStr ''z''])
   \<and> evaluateCfnExpression example_session
       (JObj [(''Fn::Select'', JArr [JNum 1, JArr [JStr ''x'', JStr ''y'', JStr ''z'']])])
     = Inr (JStr ''y'')"
proof -
  have list: "evaluateCfnExpression example_session (JArr [JStr ''x'', JStr ''y'', JStr ''z''])
      = Inr (JArr [JStr ''x'', JStr ''y'', JStr ''z''])"
    by (simp add: bind_result_def)
  show ?thesis
    using Select_element_or_undefined [OF list, of 1] list by simp
qed

text \<open>The example of the specification with the index 5: no failure, \<^verbatim>\<open>undefined\<close>.\<close>

theorem Select_out_of_range_counterexample:
  "evaluateCfnExpression example_session
       (JObj [(''Fn::Select'', JArr [JNum 5, JArr [JStr ''x'', JStr ''y'', JStr ''z'']])])
     = Inr JUndefined"
  by (simp add: evaluate_Select bind_result_def)

section \<open>The parameter context\<close>

text \<open>
  Claim C9. The constructor seeds the four pseudo parameters first and then applies the
  caller's parameters: a name the caller supplies reads as the caller's value (the last
  one, should the list repeat a name), also when it is the name of a pseudo parameter,
  and every other name reads as seeded. The source declares the context
  \<^verbatim>\<open>readonly\<close> and never assigns to it or to one of its keys; accordingly no function
  of this development returns a session other than the constructor, and the context of
  a session is the one it was built with.
\<close>

theorem constructor_context:
  "map_of (this_context (new_EvaluateCloudFormationTemplate props)) n =
     (case map_of (rev (props_parameters props)) n of
        Some v \<Rightarrow> Some v
      | None \<Rightarrow>
          map_of [(''AWS::AccountId'', props_account props),
                  (''AWS::Region'', props_region props),
                  (''AWS::Partition'', props_partition props),
                  (''AWS::URLSuffix'', props_urlSuffix props)] n)"
proof -
  let ?seed = "obj_define (obj_define (obj_define (obj_define []
      ''AWS::AccountId'' (props_account props)) ''AWS::Region'' (props_region props))
      ''AWS::Partition'' (props_partition props)) ''AWS::URLSuffix'' (props_urlSuffix props)"
  have seed: "?seed = [(''AWS::AccountId'', props_account props),
      (''AWS::Region'', props_region props), (''AWS::Partition'', props_partition props),
      (''AWS::URLSuffix'', props_urlSuffix props)]"
    by simp
  have ctx: "this_context (new_EvaluateCloudFormationTemplate props)
      = spread ?seed (props_parameters props)"
    by (simp add: new_EvaluateCloudFormationTemplate_def)
  have "map_of (spread ?seed (props_parameters props)) n =
      (case map_of (rev (props_parameters props)) n of
         Some v \<Rightarrow> Some v | None \<Rightarrow> map_of ?seed n)"
    by (simp only: map_of_spread map_add_def)
  then show ?thesis
    unfolding ctx seed by simp
qed

text \<open>
  In the example session the caller supplies \<^verbatim>\<open>AWS::Region\<close>: its value replaces the
  seeded region, the other pseudo parameters stay.
\<close>

theorem constructor_context_witness:
  "map_of (this_context example_session) ''AWS::Region'' = Some ''eu-west-1''
   \<and> map_of (this_context example_session) ''AWS::Partition'' = Some ''aws''
   \<and> map_of (this_context example_session) ''Foo'' = Some ''bar''
   \<and> map_of (this_context example_session) ''Bar'' = None"
  using constructor_context [of example_props "''AWS::Region''"]
    constructor_context [of example_props "''AWS::Partition''"]
    constructor_context [of example_props "''Foo''"]
    constructor_context [of example_props "''Bar''"]
  by (simp add: example_session_def example_props_def)

section \<open>Dispatch of an intrinsic name\<close>

text \<open>
  Claim C4. A mapping whose single key is \<^verbatim>\<open>Ref\<close> or starts with \<^verbatim>\<open>Fn::\<close> and is
  not one of the six registered names does not resolve to any member of the handler
  object (neither to \<^verbatim>\<open>evaluateIntrinsic\<close> nor to an inherited member), and its
  evaluation fails with the exception for an unsupported function, which names it.
  A registered name resolves to its handler.
\<close>

theorem unregistered_intrinsic_rejected:
  assumes "startsWith n ''Fn::'' \<or> n = ''Ref''"
  shows "(n \<notin> {''Ref'', ''Fn::Join'', ''Fn::Split'', ''Fn::Select'', ''Fn::GetAtt'', ''Fn::Sub''}
           \<longrightarrow> intrinsicFunc n = None
               \<and> evaluateCfnExpression this (JObj [(n, a)])
                   = Inl (CfnEvaluationException
                       (''CloudFormation function '' @ n @ '' is not supported'')))
       \<and> (n \<in> {''Ref'', ''Fn::Join'', ''Fn::Split'', ''Fn::Select'', ''Fn::GetAtt'', ''Fn::Sub''}
           \<longrightarrow> (\<exists>h. intrinsicFunc n = Some (Registered h)))"
proof (intro conjI impI)
  assume unregistered:
    "n \<notin> {''Ref'', ''Fn::Join'', ''Fn::Split'', ''Fn::Select'', ''Fn::GetAtt'', ''Fn::Sub''}"
  show "intrinsicFunc n = None"
    by (rule unregistered_name_lookup [OF assms unregistered])
  then show "evaluateCfnExpression this (JObj [(n, a)])
      = Inl (CfnEvaluationException (''CloudFormation function '' @ n @ '' is not supported''))"
    using assms
    by (simp add: evaluate_single_key evaluateIntrinsic_def unsupported_intrinsic_message_def)
next
  assume "n \<in> {''Ref'', ''Fn::Join'', ''Fn::Split'', ''Fn::Select'', ''Fn::GetAtt'', ''Fn::Sub''}"
  then show "\<exists>h. intrinsicFunc n = Some (Registered h)"
    using registered_lookup by auto
qed

theorem unregistered_intrinsic_rejected_witness:
  "evaluateCfnExpression example_session (JObj [(''Fn::Base64'', JStr ''text'')])
     = Inl (CfnEvaluationException ''CloudFormation function Fn::Base64 is not supported'')
   \<and> intrinsicFunc ''Fn::Base64'' = None"
proof -
  have prefixed: "startsWith ''Fn::Base64'' ''Fn::'' \<or> ''Fn::Base64'' = ''Ref''"
    by (simp add: startsWith_def)
  show ?thesis
    using unregistered_intrinsic_rejected [OF prefixed, of example_session "JStr ''text''"]
    by simp
qed

section \<open>\<^verbatim>\<open>Ref\<close>\<close>

lemma Ref_found_parameter:
  assumes "map_of (this_context this) n = Some v" and "v \<noteq> []"
  shows "Ref this [JStr n] = Inr (JStr v)"
  using assms by (simp add: Ref_def arg_def findRefTarget_def get_property_def bind_result_def)

lemma Ref_through_inventory:
  assumes "map_of (this_context this) n = Some [] \<or>
           (map_of (this_context this) n = None \<and> n \<notin> set Object_prototype)"
    and "this_stackResources this = Inr rs"
  shows "Ref this [JStr n] =
     (case find_resource rs n of
        None \<Rightarrow> Inl (CfnEvaluationException (unresolved_reference_message n))
      | Some r \<Rightarrow>
          (case PhysicalResourceId r of
             None \<Rightarrow> Inl (CfnEvaluationException (unresolved_reference_message n))
           | Some p \<Rightarrow>
               if p \<noteq> [] then Inr (JStr p)
               else Inl (CfnEvaluationException (unresolved_reference_message n))))"
  using assms
  by (auto simp add: Ref_def arg_def findRefTarget_def get_property_def bind_result_def
      findGetAttTarget_def formatResourceAttribute_def split: option.splits)

lemma findRefTarget_falls_through:
  assumes "map_of (this_context this) n = Some []"
  shows "findRefTarget this n = findGetAttTarget this n None"
  using assms by (simp add: findRefTarget_def get_property_def)

lemma Ref_never_empty: "Ref this [JStr n] \<noteq> Inr (JStr [])"
  by (auto simp add: Ref_def arg_def bind_result_def split: sum.splits option.splits)

lemma example_session_fields:
  "this_stackResources example_session = Inr example_resources"
  "this_partition example_session = ''aws''"
  "this_account example_session = ''123456789012''"
  "this_region example_session = ''us-east-1''"
  "this_context example_session =
     [(''AWS::AccountId'', ''123456789012''), (''AWS::Region'', ''eu-west-1''),
      (''AWS::Partition'', ''aws''), (''AWS::URLSuffix'', ''amazonaws.com''),
      (''Foo'', ''bar''), (''Stage'', []), (''Suffix'', []), (''Prefix'', [])]"
  by (simp_all add: example_session_def new_EvaluateCloudFormationTemplate_def
      example_props_def spread_def)

text \<open>
  Claim C2, as the code has it. \<^verbatim>\<open>findRefTarget\<close> takes the entry of the context
  when its value is a non-empty string. With no entry (for a name that is not a member
  of \<^verbatim>\<open>Object.prototype\<close>) or with the empty string as entry, and the inventory
  answering, the reference is the physical id of the first record with that logical
  name, when that id is a non-empty string; and when no record has the name it fails
  with the exception for a parameter or resource that could not be found.
\<close>

theorem Ref_resolution:
  "(\<forall>v. map_of (this_context this) n = Some v \<and> v \<noteq> [] \<longrightarrow>
       evaluateCfnExpression this (JObj [(''Ref'', JStr n)]) = Inr (JStr v))
   \<and> (\<forall>rs r p.
        (map_of (this_context this) n = Some [] \<or>
           (map_of (this_context this) n = None \<and> n \<notin> set Object_prototype))
        \<and> this_stackResources this = Inr rs
        \<and> find_resource rs n = Some r \<and> PhysicalResourceId r = Some p \<and> p \<noteq> [] \<longrightarrow>
       evaluateCfnExpression this (JObj [(''Ref'', JStr n)]) = Inr (JStr p))
   \<and> (\<forall>rs.
        (map_of (this_context this) n = Some [] \<or>
           (map_of (this_context this) n = None \<and> n \<notin> set Object_prototype))
        \<and> this_stackResources this = Inr rs
        \<and> find_resource rs n = None \<longrightarrow>
       evaluateCfnExpression this (JObj [(''Ref'', JStr n)])
         = Inl (CfnEvaluationException (''Parameter or resource '' @ [CHR 0x27] @ n @ [CHR 0x27]
             @ '' could not be found for evaluation'')))"
proof (intro conjI allI impI)
  fix v
  assume "map_of (this_context this) n = Some v \<and> v \<noteq> []"
  then show "evaluateCfnExpression this (JObj [(''Ref'', JStr n)]) = Inr (JStr v)"
    by (simp add: evaluate_Ref Ref_found_parameter)
next
  fix rs r p
  assume a: "(map_of (this_context this) n = Some [] \<or>
        (map_of (this_context this) n = None \<and> n \<notin> set Object_prototype))
      \<and> this_stackResources this = Inr rs
      \<and> find_resource rs n = Some r \<and> PhysicalResourceId r = Some p \<and> p \<noteq> []"
  then have "Ref this [JStr n] = Inr (JStr p)"
    using Ref_through_inventory [of this n rs] by simp
  then show "evaluateCfnExpression this (JObj [(''Ref'', JStr n)]) = Inr (JStr p)"
    by (simp add: evaluate_Ref)
next
  fix rs
  assume a: "(map_of (this_context this) n = Some [] \<or>
        (map_of (this_context this) n = None \<and> n \<notin> set Object_prototype))
      \<and> this_stackResources this = Inr rs
      \<and> find_resource rs n = None"
  then have "Ref this [JStr n] = Inl (CfnEvaluationException (unresolved_reference_message n))"
    using Ref_through_inventory [of this n rs] by simp
  then show "evaluateCfnExpression this (JObj [(''Ref'', JStr n)])
      = Inl (CfnEvaluationException (''Parameter or resource '' @ [CHR 0x27] @ n @ [CHR 0x27]
          @ '' could not be found for evaluation''))"
    by (simp add: evaluate_Ref unresolved_reference_message_def quoted_def)
qed

text \<open>
  In the example session: the parameter \<^verbatim>\<open>Foo\<close>, the role (no parameter of that
  name), and a name that neither the context nor the inventory has.
\<close>

theorem Ref_resolution_witness:
  "evaluateCfnExpression example_session (JObj [(''Ref'', JStr ''Foo'')]) = Inr (JStr ''bar'')
   \<and> evaluateCfnExpression example_session (JObj [(''Ref'', JStr ''MyRole'')])
       = Inr (JStr ''role-1'')
   \<and> evaluateCfnExpression example_session (JObj [(''Ref'', JStr ''Nothing'')])
       = Inl (CfnEvaluationException
           ''Parameter or resource 'Nothing' could not be found for evaluation'')"
proof -
  have foo: "map_of (this_context example_session) ''Foo'' = Some ''bar'' \<and> ''bar'' \<noteq> []"
    by (simp add: example_session_fields)
  have role: "(map_of (this_context example_session) ''MyRole'' = Some [] \<or>
        (map_of (this_context example_session) ''MyRole'' = None
          \<and> ''MyRole'' \<notin> set Object_prototype))
      \<and> this_stackResources example_session = Inr example_resources
      \<and> find_resource example_resources ''MyRole'' = Some (example_resources ! 0)
      \<and> PhysicalResourceId (example_resources ! 0) = Some ''role-1'' \<and> ''role-1'' \<noteq> []"
    by (simp add: example_session_fields Object_prototype_def find_resource_def
        example_resources_def)
  have missing: "(map_of (this_context example_session) ''Nothing'' = Some [] \<or>
        (map_of (this_context example_session) ''Nothing'' = None
          \<and> ''Nothing'' \<notin> set Object_prototype))
      \<and> this_stackResources example_session = Inr example_resources
      \<and> find_resource example_resources ''Nothing'' = None"
    by (simp add: example_session_fields Object_prototype_def find_resource_def
        example_resources_def)
  from Ref_resolution [of example_session "''Foo''"] foo
  have 1: "evaluateCfnExpression example_session (JObj [(''Ref'', JStr ''Foo'')])
      = Inr (JStr ''bar'')"
    by blast
  from Ref_resolution [of example_session "''MyRole''"] role
  have 2: "evaluateCfnExpression example_session (JObj [(''Ref'', JStr ''MyRole'')])
      = Inr (JStr ''role-1'')"
    by blast
  from Ref_resolution [of example_session "''Nothing''"] missing
  have 3: "evaluateCfnExpression example_session (JObj [(''Ref'', JStr ''Nothing'')])
      = Inl (CfnEvaluationException (''Parameter or resource '' @ [CHR 0x27] @ ''Nothing''
          @ [CHR 0x27] @ '' could not be found for evaluation''))"
    by blast
  from 1 2 3 show ?thesis by simp
qed

text \<open>
  The claim as stated returns the entry of the context whenever one exists. The example
  session has the entry \<^verbatim>\<open>Prefix\<close>, with the empty string as value, and no resource
  of that name: the reference does not evaluate to the entry, it fails.
\<close>

theorem Ref_existing_entry_counterexample:
  "map_of (this_context example_session) ''Prefix'' = Some []
   \<and> evaluateCfnExpression example_session (JObj [(''Ref'', JStr ''Prefix'')])
       = Inl (CfnEvaluationException
           ''Parameter or resource 'Prefix' could not be found for evaluation'')"
  by (simp add: evaluate_Ref Ref_def arg_def findRefTarget_def get_property_def
      example_session_fields findGetAttTarget_def bind_result_def find_resource_def
      example_resources_def unresolved_reference_message_def quoted_def)

text \<open>
  Claim C10. A parameter bound to the empty string is not what \<^verbatim>\<open>Ref\<close> returns (no
  reference evaluates to the empty string at all): \<^verbatim>\<open>findRefTarget\<close> goes on to the
  inventory, as for a name without entry, and with no record of that logical name the
  evaluation fails with the exception for a parameter or resource that could not be
  found. The test is on the value, not on the presence of the key.
\<close>

theorem Ref_empty_parameter_falls_through:
  assumes "map_of (this_context this) n = Some []"
  shows "evaluateCfnExpression this (JObj [(''Ref'', JStr n)]) \<noteq> Inr (JStr [])
       \<and> findRefTarget this n = findGetAttTarget this n None
       \<and> (\<forall>rs. this_stackResources this = Inr rs \<and> find_resource rs n = None \<longrightarrow>
            evaluateCfnExpression this (JObj [(''Ref'', JStr n)])
              = Inl (CfnEvaluationException (''Parameter or resource '' @ [CHR 0x27] @ n
                  @ [CHR 0x27] @ '' could not be found for evaluation'')))
       \<and> (\<forall>rs r p. this_stackResources this = Inr rs \<and> find_resource rs n = Some r
              \<and> PhysicalResourceId r = Some p \<and> p \<noteq> [] \<longrightarrow>
            evaluateCfnExpression this (JObj [(''Ref'', JStr n)]) = Inr (JStr p))"
proof (intro conjI allI impI)
  show "evaluateCfnExpression this (JObj [(''Ref'', JStr n)]) \<noteq> Inr (JStr [])"
    by (simp add: evaluate_Ref Ref_never_empty)
  show "findRefTarget this n = findGetAttTarget this n None"
    by (rule findRefTarget_falls_through [OF assms])
next
  fix rs
  assume "this_stackResources this = Inr rs \<and> find_resource rs n = None"
  then show "evaluateCfnExpression this (JObj [(''Ref'', JStr n)])
      = Inl (CfnEvaluationException (''Parameter or resource '' @ [CHR 0x27] @ n
          @ [CHR 0x27] @ '' could not be found for evaluation''))"
    using Ref_through_inventory [of this n rs] assms
    by (simp add: evaluate_Ref unresolved_reference_message_def quoted_def)
next
  fix rs r p
  assume "this_stackResources this = Inr rs \<and> find_resource rs n = Some r
      \<and> PhysicalResourceId r = Some p \<and> p \<noteq> []"
  then show "evaluateCfnExpression this (JObj [(''Ref'', JStr n)]) = Inr (JStr p)"
    using Ref_through_inventory [of this n rs] assms by (simp add: evaluate_Ref)
qed

text \<open>
  In the example session \<^verbatim>\<open>Suffix\<close> is bound to the empty string and names no
  resource; \<^verbatim>\<open>Stage\<close> is bound to the empty string and names a resource.
\<close>

theorem Ref_empty_parameter_falls_through_witness:
  "map_of (this_context example_session) ''Suffix'' = Some []
   \<and> evaluateCfnExpression example_session (JObj [(''Ref'', JStr ''Suffix'')])
       = Inl (CfnEvaluationException
           ''Parameter or resource 'Suffix' could not be found for evaluation'')
   \<and> map_of (this_context example_session) ''Stage'' = Some []
   \<and> evaluateCfnExpression example_session (JObj [(''Ref'', JStr ''Stage'')])
       = Inr (JStr ''stage-1'')"
proof -
  have suffix: "map_of (this_context example_session) ''Suffix'' = Some []"
    and stage: "map_of (this_context example_session) ''Stage'' = Some []"
    by (simp_all add: example_session_fields)
  have no_record: "this_stackResources example_session = Inr example_resources
      \<and> find_resource example_resources ''Suffix'' = None"
    by (simp add: example_session_fields find_resource_def example_resources_def)
  have found: "this_stackResources example_session = Inr example_resources
      \<and> find_resource example_resources ''Stage'' = Some (example_resources ! 4)
      \<and> PhysicalResourceId (example_resources ! 4) = Some ''stage-1'' \<and> ''stage-1'' \<noteq> []"
    by (simp add: example_session_fields find_resource_def example_resources_def)
  from Ref_empty_parameter_falls_through [OF suffix] no_record
  have 1: "evaluateCfnExpression example_session (JObj [(''Ref'', JStr ''Suffix'')])
      = Inl (CfnEvaluationException (''Parameter or resource '' @ [CHR 0x27] @ ''Suffix''
          @ [CHR 0x27] @ '' could not be found for evaluation''))"
    by blast
  from Ref_empty_parameter_falls_through [OF stage] found
  have 2: "evaluateCfnExpression example_session (JObj [(''Ref'', JStr ''Stage'')])
      = Inr (JStr ''stage-1'')"
    by blast
  from 1 2 suffix stage show ?thesis by simp
qed

section \<open>Splitting and joining\<close>

lemma join_Cons: "join (x # xs) sep = (if xs = [] then x else x @ sep @ join xs sep)"
  by (cases xs) simp_all

lemma split_loop_not_empty: "split_loop sep acc s \<noteq> []"
  by (induction sep acc s rule: split_loop.induct) (subst split_loop.simps, simp)

lemma join_split_loop: "sep \<noteq> [] \<Longrightarrow> join (split_loop sep acc s) sep = acc @ s"
proof (induction sep acc s rule: split_loop.induct)
  case (1 sep acc s)
  show ?case
  proof (cases "s = []")
    case True
    then show ?thesis by (subst split_loop.simps) simp
  next
    case False
    show ?thesis
    proof (cases "startsWith s sep")
      case True
      then have s: "s = sep @ drop (length sep) s"
        by (metis append_take_drop_id startsWith_def)
      have "join (split_loop sep acc s) sep
          = acc @ sep @ join (split_loop sep [] (drop (length sep) s)) sep"
        using False True "1.prems"
        by (subst split_loop.simps) (simp add: join_Cons split_loop_not_empty)
      also have "\<dots> = acc @ sep @ drop (length sep) s"
        using "1.IH"(1) False True "1.prems" by simp
      finally show ?thesis using s by simp
    next
      case no: False
      have "join (split_loop sep acc s) sep = join (split_loop sep (acc @ [hd s]) (tl s)) sep"
        using False no by (subst split_loop.simps) simp
      also have "\<dots> = (acc @ [hd s]) @ tl s"
        using "1.IH"(2) False no "1.prems" by simp
      finally show ?thesis using False by simp
    qed
  qed
qed

lemma join_units: "join (map (\<lambda>c. [c]) s) [] = s"
  by (induction s) (simp_all add: join_Cons)

lemma join_split: "join (split s sep) sep = s"
  by (simp add: split_def join_units join_split_loop)

lemma Promise_all_strings: "Promise_all (map (join_element \<circ> JStr) parts) = Inr parts"
  by (induction parts) (simp_all add: join_element_def bind_result_def)

lemma evaluate_Split_string:
  "evaluateCfnExpression this (JObj [(''Fn::Split'', JArr [JStr sep, JStr s])])
     = Inr (JArr (map JStr (split s sep)))"
  by (simp add: evaluate_single_key startsWith_def evaluateIntrinsic_def registered_lookup
      apply_handler_def argsAsArray_of_def Fn_Split_def arg_def bind_result_def)

lemma evaluate_Join:
  "evaluateCfnExpression this (JObj [(''Fn::Join'', JArr [separator, list])]) =
     bind_result (evaluateCfnExpression this list) (\<lambda>evaluatedArgs.
       case evaluatedArgs of JArr xs \<Rightarrow> Array_join xs separator | _ \<Rightarrow> Inl TypeError)"
  by (simp add: evaluate_single_key startsWith_def evaluateIntrinsic_def registered_lookup
      apply_handler_def argsAsArray_of_def Fn_Join_def arg_def)

text \<open>
  Claim C8. For every string \<open>s\<close> and every separator, \<^verbatim>\<open>Fn::Join\<close> with the
  separator over the result of \<^verbatim>\<open>Fn::Split\<close> with the same separator applied to
  \<open>s\<close> evaluates to \<open>s\<close>. The non-empty separators of the claim are a special case:
  the empty one cuts \<open>s\<close> into its code units and joins them again.
\<close>

theorem Join_Split_round_trip:
  "evaluateCfnExpression this
     (JObj [(''Fn::Join'', JArr [JStr sep, JObj [(''Fn::Split'', JArr [JStr sep, JStr s])]])])
   = Inr (JStr s)"
  by (simp add: evaluate_Join evaluate_Split_string bind_result_def Array_join_def
      join_separator_def Promise_all_strings join_split)

theorem Join_Split_round_trip_witness:
  "evaluateCfnExpression example_session (JObj [(''Fn::Split'', JArr [JStr '','', JStr ''a,b,,c''])])
     = Inr (JArr [JStr ''a'', JStr ''b'', JStr [], JStr ''c''])
   \<and> evaluateCfnExpression example_session
       (JObj [(''Fn::Join'',
          JArr [JStr '','', JObj [(''Fn::Split'', JArr [JStr '','', JStr ''a,b,,c''])]])])
     = Inr (JStr ''a,b,,c'')"
proof -
  have "split ''a,b,,c'' '','' = [''a'', ''b'', [], ''c'']"
    by code_simp
  then show ?thesis
    using Join_Split_round_trip [of example_session "'',''" "''a,b,,c''"]
    by (simp add: evaluate_Split_string)
qed

section \<open>Expressions without intrinsic node\<close>

text \<open>
  Claim C6 fails at a mapping with the key \<^verbatim>\<open>__proto__\<close>. The expression
  \<^verbatim>\<open>{"__proto__": 1, "a": 2}\<close>, read from JSON, has the two own keys and no
  intrinsic node. The loop of lines 123 to 127 assigns \<^verbatim>\<open>ret['__proto__'] = 1\<close>,
  which runs the setter inherited from \<^verbatim>\<open>Object.prototype\<close> and creates no
  property: the result is \<^verbatim>\<open>{"a": 2}\<close>, the plain object has not kept its keys.
\<close>

theorem proto_key_lost:
  "no_intrinsic (JObj [(''__proto__'', JNum 1), (''a'', JNum 2)])
   \<and> evaluateCfnExpression example_session (JObj [(''__proto__'', JNum 1), (''a'', JNum 2)])
       = Inr (JObj [(''a'', JNum 2)])
   \<and> evaluateCfnExpression example_session (JObj [(''__proto__'', JNum 1), (''a'', JNum 2)])
       \<noteq> Inr (JObj [(''__proto__'', JNum 1), (''a'', JNum 2)])"
proof -
  have plain: "no_intrinsic (JObj [(''__proto__'', JNum 1), (''a'', JNum 2)])"
    by (simp add: parseIntrinsic_def)
  have result: "evaluateCfnExpression example_session
        (JObj [(''__proto__'', JNum 1), (''a'', JNum 2)])
      = Inr (JObj [(''a'', JNum 2)])"
    by (simp add: evaluateCfnExpression.simps(4) parseIntrinsic_def bind_result_def
        obj_assign_def)
  show ?thesis
    using plain by (simp add: result)
qed

text \<open>
  A mapping without that key is rebuilt entry by entry.
\<close>

lemma Promise_all_identity:
  "(\<And>x. x \<in> set xs \<Longrightarrow> f x = Inr x) \<Longrightarrow> Promise_all (map f xs) = Inr xs"
  by (induction xs) (simp_all add: bind_result_def)

lemma evaluate_entries_identity:
  assumes "\<And>k v. (k, v) \<in> set x \<Longrightarrow> f v = Inr v"
    and "distinct (map fst (ret @ x))" and "''__proto__'' \<notin> set (map fst x)"
  shows "evaluate_entries f x ret = Inr (ret @ x)"
  using assms
proof (induction x arbitrary: ret)
  case Nil
  then show ?case by simp
next
  case (Cons e es)
  obtain k v where e: "e = (k, v)" by (cases e)
  have fv: "f v = Inr v" using Cons.prems(1) [of k v] e by simp
  have new: "k \<notin> fst ` set ret" using Cons.prems(2) e by auto
  have k: "k \<noteq> ''__proto__''" using Cons.prems(3) e by auto
  have "evaluate_entries f es (ret @ [(k, v)]) = Inr ((ret @ [(k, v)]) @ es)"
  proof (rule Cons.IH)
    show "f v' = Inr v'" if "(k', v') \<in> set es" for k' v'
      using Cons.prems(1) [of k' v'] that by simp
    show "distinct (map fst ((ret @ [(k, v)]) @ es))" using Cons.prems(2) e by simp
    show "''__proto__'' \<notin> set (map fst es)" using Cons.prems(3) by simp
  qed
  then show ?case
    using fv new k by (simp add: e bind_result_def obj_assign_def obj_define_new)
qed

text \<open>
  Where no mapping has the key \<^verbatim>\<open>__proto__\<close>, the evaluation is the identity: an
  expression tree with no intrinsic node at any depth (and with unique keys in every
  mapping, as the data model has them) evaluates to itself. Null and scalars pass
  through, a sequence keeps its length and the order of its elements, a plain object
  keeps its keys, in their order, with each value evaluated.
\<close>

theorem plain_expression_identity:
  assumes "no_intrinsic e" and "well_formed e"
  shows "evaluateCfnExpression this e = Inr e"
  using assms
proof (induction e)
  case (JArr xs)
  have "Promise_all (map (evaluateCfnExpression this) xs) = Inr xs"
  proof (rule Promise_all_identity)
    fix x assume x: "x \<in> set xs"
    with JArr.prems have "no_intrinsic x" "well_formed x" by (simp_all add: list_all_iff)
    with JArr.IH x show "evaluateCfnExpression this x = Inr x" by blast
  qed
  then show ?case by (simp add: bind_result_def)
next
  case (JObj x)
  have "evaluate_entries (evaluateCfnExpression this) x [] = Inr ([] @ x)"
  proof (rule evaluate_entries_identity)
    fix k v assume kv: "(k, v) \<in> set x"
    with JObj.prems have "no_intrinsic v" "well_formed v" by (auto simp add: list_all_iff)
    moreover have "v \<in> Basic_BNFs.snds (k, v)" by simp
    ultimately show "evaluateCfnExpression this v = Inr v" using JObj.IH kv by blast
  next
    show "distinct (map fst ([] @ x))" using JObj.prems by simp
    show "''__proto__'' \<notin> set (map fst x)" using JObj.prems by simp
  qed
  then show ?case using JObj.prems
    by (simp add: evaluateCfnExpression.simps(4) bind_result_def)
qed simp_all

theorem plain_expression_identity_witness:
  "no_intrinsic (JObj [(''Name'', JStr ''x''), (''Ref'', JArr [JNum 1, JNull, JBool True]),
       (''Nested'', JObj [(''Key'', JArr [])])])
   \<and> well_formed (JObj [(''Name'', JStr ''x''), (''Ref'', JArr [JNum 1, JNull, JBool True]),
       (''Nested'', JObj [(''Key'', JArr [])])])
   \<and> evaluateCfnExpression example_session
       (JObj [(''Name'', JStr ''x''), (''Ref'', JArr [JNum 1, JNull, JBool True]),
         (''Nested'', JObj [(''Key'', JArr [])])])
     = Inr (JObj [(''Name'', JStr ''x''), (''Ref'', JArr [JNum 1, JNull, JBool True]),
         (''Nested'', JObj [(''Key'', JArr [])])])"
proof -
  have plain: "no_intrinsic (JObj [(''Name'', JStr ''x''),
      (''Ref'', JArr [JNum 1, JNull, JBool True]), (''Nested'', JObj [(''Key'', JArr [])])])"
    by (simp add: parseIntrinsic_def startsWith_def)
  have wf: "well_formed (JObj [(''Name'', JStr ''x''),
      (''Ref'', JArr [JNum 1, JNull, JBool True]), (''Nested'', JObj [(''Key'', JArr [])])])"
    by simp
  show ?thesis
    using plain wf plain_expression_identity [OF plain wf, of example_session] by simp
qed

section \<open>\<^verbatim>\<open>Fn::Sub\<close>\<close>

lemma segments_None: "regex_exec s = None \<Longrightarrow> segments s = [Literal s]"
  by (subst segments.simps) simp

lemma segments_Some:
  "regex_exec s = Some (pre, key, rest)
    \<Longrightarrow> segments s = Literal pre # Placeholder key # segments rest"
  by (subst segments.simps) simp

lemma replace_loop_None:
  "regex_exec s = None \<Longrightarrow> replace_loop s cb ret = Inr (ret @ [Json (JStr s)])"
  by (subst replace_loop.simps) simp

lemma replace_loop_Some:
  "regex_exec s = Some (pre, key, rest)
    \<Longrightarrow> replace_loop s cb ret =
        bind_result (cb key) (\<lambda>v. replace_loop rest cb (ret @ [Json (JStr pre), v]))"
  by (subst replace_loop.simps) simp

lemma split_loop_dot:
  "split_loop ''.'' acc s =
     (acc @ takeWhile (\<lambda>c. c \<noteq> CHR ''.'') s) #
       (if dropWhile (\<lambda>c. c \<noteq> CHR ''.'') s = [] then []
        else split_loop ''.'' [] (tl (dropWhile (\<lambda>c. c \<noteq> CHR ''.'') s)))"
proof (induction s arbitrary: acc)
  case Nil
  then show ?case by (subst split_loop.simps) simp
next
  case (Cons c cs)
  show ?case
  proof (cases "c = CHR ''.''")
    case True
    then show ?thesis by (subst split_loop.simps) (simp add: startsWith_def)
  next
    case False
    then have "split_loop ''.'' acc (c # cs) = split_loop ''.'' (acc @ [c]) cs"
      by (subst split_loop.simps) (simp add: startsWith_def)
    then show ?thesis using False by (auto simp add: Cons.IH [of "acc @ [c]"])
  qed
qed

lemma split_key_no_dot:
  "CHR ''.'' \<notin> set key \<Longrightarrow> split key ''.'' = [key]"
  by (simp add: split_def split_loop_dot [of "[]" key])

lemma split_key_dot:
  assumes "CHR ''.'' \<in> set key"
  shows "split key ''.'' = takeWhile (\<lambda>c. c \<noteq> CHR ''.'') key
           # split_loop ''.'' [] (tl (dropWhile (\<lambda>c. c \<noteq> CHR ''.'') key))"
proof -
  from assms have "dropWhile (\<lambda>c. c \<noteq> CHR ''.'') key \<noteq> []" by auto
  then show ?thesis by (auto simp add: split_def split_loop_dot [of "[]" key])
qed

lemma callback_resolves:
  assumes "map_of entries key = None \<longrightarrow> key \<notin> set Object_prototype"
  shows "Sub_callback this (JObj entries) key
           = bind_result (resolve_placeholder this entries key) (\<lambda>v. Inr (Json v))"
proof (cases "map_of entries key")
  case (Some v)
  then show ?thesis
    by (simp add: Sub_callback_def get_property_def resolve_placeholder_def bind_result_def)
next
  case None
  with assms have absent: "get_property entries key = Absent"
    by (simp add: get_property_def)
  show ?thesis
  proof (cases "CHR ''.'' \<in> set key")
    case False
    then show ?thesis using None absent
      by (simp add: Sub_callback_def resolve_placeholder_def split_key_no_dot evaluate_Ref)
  next
    case True
    have len: "length (split key ''.'') \<noteq> Suc 0"
      using split_key_dot [OF True] split_loop_not_empty by simp
    have rest: "join (drop (Suc 0) (split key ''.'')) ''.'' = tl (dropWhile (\<lambda>c. c \<noteq> CHR ''.'') key)"
      using split_key_dot [OF True] join_split_loop [of "''.''" "[]"] by simp
    have first: "split key ''.'' ! 0 = takeWhile (\<lambda>c. c \<noteq> CHR ''.'') key"
      using split_key_dot [OF True] by simp
    show ?thesis using None absent True len
      by (simp add: Sub_callback_def resolve_placeholder_def Let_def rest first evaluate_GetAtt
          Fn_GetAtt_def arg_def)
  qed
qed

lemma join_empty_separator: "join texts [] = concat texts"
  by (induction texts) (simp_all add: join_Cons)

lemma match_here_text:
  assumes "match_here s = Some (key, rest)"
  shows "s = ''${'' @ key @ ''}'' @ rest \<and> CHR ''}'' \<notin> set key"
proof -
  let ?body = "drop 2 s"
  let ?P = "\<lambda>c. c \<noteq> CHR ''}''"
  from assms have start: "take 2 s = ''${''" and ne: "dropWhile ?P ?body \<noteq> []"
    and key: "key = takeWhile ?P ?body" and rest: "rest = tl (dropWhile ?P ?body)"
    by (auto simp: match_here_def startsWith_def Let_def numeral_2_eq_2 split: if_splits)
  from ne have "hd (dropWhile ?P ?body) = CHR ''}''"
    using hd_dropWhile [of ?P ?body] by simp
  with ne rest have "dropWhile ?P ?body = ''}'' @ rest"
    by (cases "dropWhile ?P ?body") simp_all
  then have "?body = key @ ''}'' @ rest"
    using takeWhile_dropWhile_id [of ?P ?body] key by simp
  moreover have "s = take 2 s @ ?body" by simp
  ultimately have "s = ''${'' @ key @ ''}'' @ rest" using start by simp
  moreover have "CHR ''}'' \<notin> set key"
    unfolding key using set_takeWhileD by fastforce
  ultimately show ?thesis by simp
qed

lemma regex_exec_text:
  "regex_exec s = Some (pre, key, rest)
    \<Longrightarrow> s = pre @ ''${'' @ key @ ''}'' @ rest \<and> CHR ''}'' \<notin> set key"
proof (induction s arbitrary: pre)
  case Nil
  then show ?case by simp
next
  case (Cons c cs)
  show ?case
  proof (cases "match_here (c # cs)")
    case (Some m)
    with Cons.prems have "match_here (c # cs) = Some (key, rest)" and "pre = []"
      by (cases m; auto)+
    then show ?thesis using match_here_text by simp
  next
    case None
    with Cons.prems obtain b where b: "regex_exec cs = Some (b, key, rest)" and "pre = c # b"
      by (auto split: option.splits)
    then show ?thesis using Cons.IH [OF b] by simp
  qed
qed

lemma segments_text: "concat (map segment_text (segments s)) = s"
proof (induction s rule: segments.induct)
  case (1 s)
  show ?case
  proof (cases "regex_exec s")
    case None
    then show ?thesis by (simp add: segments_None)
  next
    case (Some m)
    obtain pre key rest where m: "m = (pre, key, rest)" by (cases m)
    have r: "regex_exec s = Some (pre, key, rest)" by (simp add: Some m)
    have ih: "concat (map segment_text (segments rest)) = rest"
      by (rule "1.IH" [of m pre "(key, rest)" key rest]) (simp_all add: Some m)
    have whole: "pre @ ''${'' @ key @ ''}'' @ rest = s"
      using regex_exec_text [OF r] by simp
    have "segments s = Literal pre # Placeholder key # segments rest"
      by (rule segments_Some [OF r])
    then have "concat (map segment_text (segments s))
        = pre @ ''${'' @ key @ ''}'' @ concat (map segment_text (segments rest))"
      by simp
    also have "\<dots> = pre @ ''${'' @ key @ ''}'' @ rest"
      by (simp only: ih)
    finally show ?thesis
      by (simp only: whole)
  qed
qed

lemma evaluate_Sub:
  "evaluateCfnExpression this (JObj [(''Fn::Sub'', JArr [JStr template, explicitPlaceholders])]) =
     bind_result
       (if truthy explicitPlaceholders then evaluateCfnExpression this explicitPlaceholders
        else Inr (JObj []))
       (\<lambda>placeholders. asyncGlobalReplace template (Sub_callback this placeholders))"
  by (simp add: evaluate_single_key startsWith_def evaluateIntrinsic_def registered_lookup
      apply_handler_def argsAsArray_of_def Fn_Sub_def arg_def Let_def)

lemma evaluate_Sub_string:
  "evaluateCfnExpression this (JObj [(''Fn::Sub'', JStr template)]) =
     asyncGlobalReplace template (Sub_callback this (JObj []))"
  by (simp add: evaluate_single_key startsWith_def evaluateIntrinsic_def registered_lookup
      apply_handler_def argsAsArray_of_def Fn_Sub_def arg_def Let_def bind_result_def)

lemma replace_loop_segments:
  assumes "\<And>key. key \<in> set (placeholder_keys (segments s))
             \<Longrightarrow> cb key = bind_result (f key) (\<lambda>v. Inr (Json v))"
  shows "replace_loop s cb ret =
     bind_result (resolve_in_order f (segments s)) (\<lambda>pieces. Inr (ret @ map Json pieces))"
  using assms
proof (induction s arbitrary: ret rule: segments.induct)
  case (1 s)
  show ?case
  proof (cases "regex_exec s")
    case None
    then show ?thesis
      by (simp add: replace_loop_None segments_None bind_result_def)
  next
    case (Some m)
    obtain pre key rest where m: "m = (pre, key, rest)" by (cases m)
    have r: "regex_exec s = Some (pre, key, rest)" using Some m by simp
    have segs: "segments s = Literal pre # Placeholder key # segments rest"
      by (rule segments_Some [OF r])
    have here: "cb key = bind_result (f key) (\<lambda>v. Inr (Json v))"
      by (rule "1.prems") (simp add: segs)
    have later: "cb k = bind_result (f k) (\<lambda>v. Inr (Json v))"
      if "k \<in> set (placeholder_keys (segments rest))" for k
      by (rule "1.prems") (simp add: segs that)
    have ih: "replace_loop rest cb acc =
        bind_result (resolve_in_order f (segments rest))
          (\<lambda>pieces. Inr (acc @ map Json pieces))" for acc
      by (rule "1.IH" [of m pre "(key, rest)" key rest]) (simp_all add: Some m later)
    show ?thesis
      unfolding replace_loop_Some [OF r] segs
      by (simp add: here ih bind_result_def split: sum.splits)
  qed
qed

lemma match_here_None_iff:
  "match_here s = None \<longleftrightarrow> \<not> (startsWith s ''${'' \<and> CHR ''}'' \<in> set (drop 2 s))"
  by (auto simp: match_here_def Let_def)

lemma regex_exec_finds:
  "regex_exec (u @ ''${'' @ k @ ''}'' @ v) \<noteq> None"
proof (induction u)
  case Nil
  have "startsWith (''${'' @ k @ ''}'' @ v) ''${''" by (simp add: startsWith_def)
  moreover have "CHR ''}'' \<in> set (drop 2 (''${'' @ k @ ''}'' @ v))" by simp
  ultimately have "match_here (''${'' @ k @ ''}'' @ v) \<noteq> None"
    by (simp add: match_here_None_iff)
  then show ?case by (auto split: option.splits)
next
  case (Cons c u)
  then show ?case by (auto split: option.splits)
qed

lemma regex_exec_None_iff:
  "regex_exec s = None \<longleftrightarrow> \<not> (\<exists>u k v. s = u @ ''${'' @ k @ ''}'' @ v)"
proof
  assume "regex_exec s = None"
  then show "\<not> (\<exists>u k v. s = u @ ''${'' @ k @ ''}'' @ v)"
    using regex_exec_finds by blast
next
  assume no: "\<not> (\<exists>u k v. s = u @ ''${'' @ k @ ''}'' @ v)"
  show "regex_exec s = None"
  proof (rule ccontr)
    assume "regex_exec s \<noteq> None"
    then obtain pre key rest where "regex_exec s = Some (pre, key, rest)" by auto
    then have "s = pre @ ''${'' @ key @ ''}'' @ rest" using regex_exec_text by blast
    with no show False by blast
  qed
qed

lemma match_here_marker:
  assumes "CHR ''}'' \<notin> set key"
  shows "match_here (''${'' @ key @ ''}'' @ rest) = Some (key, rest)"
proof -
  have "takeWhile (\<lambda>c. c \<noteq> CHR ''}'') (key @ ''}'' @ rest) = key"
    using assms by (induction key) auto
  moreover have "dropWhile (\<lambda>c. c \<noteq> CHR ''}'') (key @ ''}'' @ rest) = ''}'' @ rest"
    using assms by (induction key) auto
  ultimately show ?thesis
    by (simp add: match_here_def startsWith_def Let_def)
qed

lemma regex_exec_leftmost:
  assumes "CHR ''}'' \<notin> set key" and "\<not> (\<exists>u v. pre = u @ ''${'' @ v)"
  shows "regex_exec (pre @ ''${'' @ key @ ''}'' @ rest) = Some (pre, key, rest)"
  using assms(2)
proof (induction pre)
  case Nil
  have "match_here (CHR ''$'' # CHR ''{'' # key @ CHR ''}'' # rest) = Some (key, rest)"
    using match_here_marker [OF assms(1), of rest] by simp
  then show ?case by simp
next
  case (Cons c p)
  have p: "\<not> (\<exists>u v. p = u @ ''${'' @ v)"
  proof
    assume "\<exists>u v. p = u @ ''${'' @ v"
    then obtain u v where "p = u @ ''${'' @ v" by blast
    then have "c # p = (c # u) @ ''${'' @ v" by simp
    with Cons.prems show False by blast
  qed
  have "\<not> startsWith (c # p @ ''${'' @ key @ ''}'' @ rest) ''${''"
  proof
    assume sw: "startsWith (c # p @ ''${'' @ key @ ''}'' @ rest) ''${''"
    show False
    proof (cases p)
      case Nil
      with sw show False by (simp add: startsWith_def)
    next
      case (Cons d p')
      with sw have "c = CHR ''$''" "d = CHR ''{''" by (simp_all add: startsWith_def)
      then have "c # p = [] @ ''${'' @ p'" using Cons by simp
      with Cons.prems show False by blast
    qed
  qed
  then have "match_here (c # p @ ''${'' @ key @ ''}'' @ rest) = None"
    by (simp add: match_here_def)
  then show ?case using Cons.IH [OF p] by simp
qed

lemma regex_exec_prefix_clean:
  "regex_exec s = Some (pre, key, rest) \<Longrightarrow> \<not> (\<exists>u v. pre = u @ ''${'' @ v)"
proof (induction s arbitrary: pre)
  case Nil
  then show ?case by simp
next
  case (Cons c cs)
  show ?case
  proof (cases "match_here (c # cs)")
    case (Some m)
    with Cons.prems have "pre = []" by (cases m) auto
    then show ?thesis by simp
  next
    case None
    with Cons.prems obtain b where b: "regex_exec cs = Some (b, key, rest)" and pre: "pre = c # b"
      by (auto split: option.splits)
    have ih: "\<not> (\<exists>u v. b = u @ ''${'' @ v)" by (rule Cons.IH [OF b])
    have cs: "cs = b @ ''${'' @ key @ ''}'' @ rest"
      using regex_exec_text [OF b] by simp
    show ?thesis
    proof
      assume "\<exists>u v. pre = u @ ''${'' @ v"
      then obtain u v where uv: "c # b = u @ ''${'' @ v" unfolding pre by blast
      show False
      proof (cases u)
        case Nil
        with uv have "c # cs = ''${'' @ (v @ ''${'' @ key) @ ''}'' @ rest"
          using cs by simp
        then have "match_here (c # cs) \<noteq> None"
          by (simp add: match_here_None_iff startsWith_def)
        with None show False by simp
      next
        case (Cons d u')
        with uv have "b = u' @ ''${'' @ v" by simp
        with ih show False by blast
      qed
    qed
  qed
qed

lemma asyncGlobalReplace_spec:
  assumes "\<And>key. key \<in> set (placeholder_keys (segments template))
             \<Longrightarrow> map_of entries key = None \<longrightarrow> key \<notin> set Object_prototype"
  shows "asyncGlobalReplace template (Sub_callback this (JObj entries))
           = Sub_spec this entries template"
proof -
  have loop: "replace_loop template (Sub_callback this (JObj entries)) [] =
      bind_result (resolve_in_order (resolve_placeholder this entries) (segments template))
        (\<lambda>pieces. Inr ([] @ map Json pieces))"
    by (rule replace_loop_segments) (simp add: callback_resolves assms)
  have texts: "map piece_text (map Json pieces) = map join_element pieces" for pieces
    by (simp add: piece_text_def)
  show ?thesis
    unfolding asyncGlobalReplace_def Sub_spec_def loop
    by (simp add: texts join_empty_separator bind_result_def del: map_map split: sum.splits)
qed

text \<open>
  The resolution of \<^verbatim>\<open>Fn::Sub\<close> for keys that name no inherited member. The scan
  cuts the template into literal segments and placeholders \<^verbatim>\<open>${key}\<close>, from left to
  right: a template without the text of a placeholder is one literal segment; otherwise
  the first segments are the text before the leftmost \<^verbatim>\<open>${\<close>, as literal, and the
  key up to the first closing brace after it, and the scan goes on behind that brace.
  The segments, in their order, spell the template. The evaluation of \<^verbatim>\<open>Fn::Sub\<close>
  (with the template alone, with a second argument that counts as absent, or with
  explicit placeholders that evaluate to a mapping) resolves the placeholders from left
  to right, each by the three rules (the explicit placeholder when the key is in the
  evaluated mapping, else \<^verbatim>\<open>Ref(key)\<close> for a key without dot, else
  \<^verbatim>\<open>Fn::GetAtt\<close> of the part before the first dot and of the rest, further dots
  kept), and concatenates the substituted values and the literal segments in the order
  of the template. This holds when every key that is no explicit placeholder is not the
  name of a member of \<^verbatim>\<open>Object.prototype\<close>.
\<close>

theorem Sub_resolution:
  "concat (map segment_text (segments template)) = template
   \<and> (\<not> (\<exists>u key v. template = u @ ''${'' @ key @ ''}'' @ v) \<longrightarrow>
        segments template = [Literal template])
   \<and> (\<forall>pre key rest.
        template = pre @ ''${'' @ key @ ''}'' @ rest \<and> CHR ''}'' \<notin> set key
        \<and> \<not> (\<exists>u v. pre = u @ ''${'' @ v) \<longrightarrow>
        segments template = Literal pre # Placeholder key # segments rest)
   \<and> ((\<exists>u key v. template = u @ ''${'' @ key @ ''}'' @ v) \<longrightarrow>
        (\<exists>pre key rest.
           template = pre @ ''${'' @ key @ ''}'' @ rest \<and> CHR ''}'' \<notin> set key
           \<and> \<not> (\<exists>u v. pre = u @ ''${'' @ v)))
   \<and> ((\<forall>key \<in> set (placeholder_keys (segments template)). key \<notin> set Object_prototype) \<longrightarrow>
        evaluateCfnExpression this (JObj [(''Fn::Sub'', JStr template)])
          = Sub_spec this [] template
        \<and> (\<not> truthy explicitPlaceholders \<longrightarrow>
             evaluateCfnExpression this
                 (JObj [(''Fn::Sub'', JArr [JStr template, explicitPlaceholders])])
               = Sub_spec this [] template))
   \<and> (\<forall>entries.
        truthy explicitPlaceholders
        \<and> evaluateCfnExpression this explicitPlaceholders = Inr (JObj entries)
        \<and> (\<forall>key \<in> set (placeholder_keys (segments template)).
              map_of entries key = None \<longrightarrow> key \<notin> set Object_prototype) \<longrightarrow>
        evaluateCfnExpression this
            (JObj [(''Fn::Sub'', JArr [JStr template, explicitPlaceholders])])
          = Sub_spec this entries template)"
proof -
  have whole: "concat (map segment_text (segments template)) = template"
    by (rule segments_text)
  have none: "segments template = [Literal template]"
    if "\<not> (\<exists>u key v. template = u @ ''${'' @ key @ ''}'' @ v)"
    using that by (intro segments_None) (simp add: regex_exec_None_iff)
  have leftmost: "segments template = Literal pre # Placeholder key # segments rest"
    if "template = pre @ ''${'' @ key @ ''}'' @ rest \<and> CHR ''}'' \<notin> set key
        \<and> \<not> (\<exists>u v. pre = u @ ''${'' @ v)" for pre key rest
  proof (rule segments_Some)
    show "regex_exec template = Some (pre, key, rest)"
      using that regex_exec_leftmost [of key pre rest] by simp
  qed
  have covered: "\<exists>pre key rest.
      template = pre @ ''${'' @ key @ ''}'' @ rest \<and> CHR ''}'' \<notin> set key
      \<and> \<not> (\<exists>u v. pre = u @ ''${'' @ v)"
    if "\<exists>u key v. template = u @ ''${'' @ key @ ''}'' @ v"
  proof -
    from that have "regex_exec template \<noteq> None" by (simp add: regex_exec_None_iff)
    then obtain pre key rest where r: "regex_exec template = Some (pre, key, rest)" by auto
    from regex_exec_text [OF r] regex_exec_prefix_clean [OF r] show ?thesis by blast
  qed
  have alone: "evaluateCfnExpression this (JObj [(''Fn::Sub'', JStr template)])
      = Sub_spec this [] template"
    if "\<forall>key \<in> set (placeholder_keys (segments template)). key \<notin> set Object_prototype"
    using that by (simp add: evaluate_Sub_string asyncGlobalReplace_spec)
  have falsy: "evaluateCfnExpression this
        (JObj [(''Fn::Sub'', JArr [JStr template, explicitPlaceholders])])
      = Sub_spec this [] template"
    if "\<forall>key \<in> set (placeholder_keys (segments template)). key \<notin> set Object_prototype"
      and "\<not> truthy explicitPlaceholders"
    using that by (simp add: evaluate_Sub bind_result_def asyncGlobalReplace_spec)
  have explicit: "evaluateCfnExpression this
        (JObj [(''Fn::Sub'', JArr [JStr template, explicitPlaceholders])])
      = Sub_spec this entries template"
    if a: "truthy explicitPlaceholders
      \<and> evaluateCfnExpression this explicitPlaceholders = Inr (JObj entries)
      \<and> (\<forall>key \<in> set (placeholder_keys (segments template)).
            map_of entries key = None \<longrightarrow> key \<notin> set Object_prototype)" for entries
  proof -
    from a have "asyncGlobalReplace template (Sub_callback this (JObj entries))
        = Sub_spec this entries template"
      by (intro asyncGlobalReplace_spec) blast
    with a show ?thesis by (simp add: evaluate_Sub bind_result_def)
  qed
  show ?thesis
    using whole none leftmost covered alone falsy explicit by blast
qed

text \<open>
  The examples of the specification in the example session, and a template with an
  explicit placeholder, a reference, an attribute, and a key with two dots: the
  attribute path of the last one is \<^verbatim>\<open>Arn.Extra\<close>, the dot in it kept.
\<close>

theorem Sub_resolution_witness:
  "segments ''Hello ${Name}'' = [Literal ''Hello '', Placeholder ''Name'', Literal []]
   \<and> evaluateCfnExpression example_session
       (JObj [(''Fn::Sub'', JArr [JStr ''Hello ${Name}'', JObj [(''Name'', JStr ''World'')]])])
     = Inr (JStr ''Hello World'')
   \<and> evaluateCfnExpression example_session
       (JObj [(''Fn::Sub'', JStr ''arn:${AWS::Partition}:iam::${AWS::AccountId}:role/x'')])
     = Inr (JStr ''arn:aws:iam::123456789012:role/x'')
   \<and> evaluateCfnExpression example_session
       (JObj [(''Fn::Sub'', JArr [JStr ''${Name}: ${MyBucket} ${MyRole.Arn}'',
          JObj [(''Name'', JStr ''World'')]])])
     = Inr (JStr ''World: my-bucket-1 arn:aws:iam::123456789012:role/role-1'')
   \<and> evaluateCfnExpression example_session (JObj [(''Fn::Sub'', JStr ''${MyRole.Arn.Extra}'')])
     = Inl (CfnEvaluationException
         ''We don't support the 'Arn.Extra' attribute of the 'AWS::IAM::Role' resource. This is a CDK limitation. Please report it at https://github.com/aws/aws-cdk/issues/new/choose'')"
proof -
  have s1: "segments ''Hello ${Name}'' = [Literal ''Hello '', Placeholder ''Name'', Literal []]"
    by code_simp
  have s2: "segments ''arn:${AWS::Partition}:iam::${AWS::AccountId}:role/x'' =
      [Literal ''arn:'', Placeholder ''AWS::Partition'', Literal '':iam::'',
       Placeholder ''AWS::AccountId'', Literal '':role/x'']"
    by code_simp
  have s3: "segments ''${Name}: ${MyBucket} ${MyRole.Arn}'' =
      [Literal [], Placeholder ''Name'', Literal '': '', Placeholder ''MyBucket'', Literal '' '',
       Placeholder ''MyRole.Arn'', Literal []]"
    by code_simp
  have s4: "segments ''${MyRole.Arn.Extra}'' = [Literal [], Placeholder ''MyRole.Arn.Extra'', Literal []]"
    by code_simp
  have entries: "truthy (JObj [(''Name'', JStr ''World'')])
      \<and> evaluateCfnExpression example_session (JObj [(''Name'', JStr ''World'')])
          = Inr (JObj [(''Name'', JStr ''World'')])"
    by (simp add: evaluate_single_key startsWith_def bind_result_def obj_assign_def)
  have k1: "\<forall>key \<in> set (placeholder_keys (segments ''Hello ${Name}'')).
      map_of [(''Name'', JStr ''World'')] key = None \<longrightarrow> key \<notin> set Object_prototype"
    by (simp add: s1)
  have k2: "\<forall>key \<in> set (placeholder_keys
        (segments ''arn:${AWS::Partition}:iam::${AWS::AccountId}:role/x'')).
      key \<notin> set Object_prototype"
    by (simp add: s2 Object_prototype_def)
  have k3: "\<forall>key \<in> set (placeholder_keys (segments ''${Name}: ${MyBucket} ${MyRole.Arn}'')).
      map_of [(''Name'', JStr ''World'')] key = None \<longrightarrow> key \<notin> set Object_prototype"
    by (simp add: s3 Object_prototype_def)
  have k4: "\<forall>key \<in> set (placeholder_keys (segments ''${MyRole.Arn.Extra}'')).
      key \<notin> set Object_prototype"
    by (simp add: s4 Object_prototype_def)
  have v1: "Sub_spec example_session [(''Name'', JStr ''World'')] ''Hello ${Name}''
      = Inr (JStr ''Hello World'')"
    by code_simp
  have v2: "Sub_spec example_session [] ''arn:${AWS::Partition}:iam::${AWS::AccountId}:role/x''
      = Inr (JStr ''arn:aws:iam::123456789012:role/x'')"
    by code_simp
  have v3: "Sub_spec example_session [(''Name'', JStr ''World'')]
        ''${Name}: ${MyBucket} ${MyRole.Arn}''
      = Inr (JStr ''World: my-bucket-1 arn:aws:iam::123456789012:role/role-1'')"
    by code_simp
  have v4: "Sub_spec example_session [] ''${MyRole.Arn.Extra}''
      = Inl (CfnEvaluationException
          ''We don't support the 'Arn.Extra' attribute of the 'AWS::IAM::Role' resource. This is a CDK limitation. Please report it at https://github.com/aws/aws-cdk/issues/new/choose'')"
    by code_simp
  from Sub_resolution [of "''Hello ${Name}''" example_session "JObj [(''Name'', JStr ''World'')]"]
    entries k1
  have e1: "evaluateCfnExpression example_session
      (JObj [(''Fn::Sub'', JArr [JStr ''Hello ${Name}'', JObj [(''Name'', JStr ''World'')]])])
      = Sub_spec example_session [(''Name'', JStr ''World'')] ''Hello ${Name}''"
    by blast
  from Sub_resolution [of "''arn:${AWS::Partition}:iam::${AWS::AccountId}:role/x''"
      example_session JNull] k2
  have e2: "evaluateCfnExpression example_session
      (JObj [(''Fn::Sub'', JStr ''arn:${AWS::Partition}:iam::${AWS::AccountId}:role/x'')])
      = Sub_spec example_session [] ''arn:${AWS::Partition}:iam::${AWS::AccountId}:role/x''"
    by blast
  from Sub_resolution [of "''${Name}: ${MyBucket} ${MyRole.Arn}''" example_session
      "JObj [(''Name'', JStr ''World'')]"] entries k3
  have e3: "evaluateCfnExpression example_session
      (JObj [(''Fn::Sub'', JArr [JStr ''${Name}: ${MyBucket} ${MyRole.Arn}'',
         JObj [(''Name'', JStr ''World'')]])])
      = Sub_spec example_session [(''Name'', JStr ''World'')]
          ''${Name}: ${MyBucket} ${MyRole.Arn}''"
    by blast
  from Sub_resolution [of "''${MyRole.Arn.Extra}''" example_session JNull] k4
  have e4: "evaluateCfnExpression example_session
      (JObj [(''Fn::Sub'', JStr ''${MyRole.Arn.Extra}'')])
      = Sub_spec example_session [] ''${MyRole.Arn.Extra}''"
    by blast
  show ?thesis
    unfolding e1 e2 e3 e4 v1 v2 v3 v4 s1 by simp
qed

text \<open>
  Claim C1 fails at a key that is the name of a member of \<^verbatim>\<open>Object.prototype\<close>.
  The test \<^verbatim>\<open>key in placeholders\<close> of line 98 holds for such a key although the
  mapping of explicit placeholders has no entry for it, and line 99 substitutes the
  inherited member. In the session with the parameter \<^verbatim>\<open>constructor\<close>,
  \<^verbatim>\<open>{"Ref": "constructor"}\<close> evaluates to the value of the parameter, and the three
  rules give \<^verbatim>\<open>xacmey\<close> for the template \<^verbatim>\<open>x${constructor}y\<close>; the code
  substitutes the text of the function \<^verbatim>\<open>Object\<close>, with the template alone and
  with explicit placeholders that do not have the key.
\<close>

theorem Sub_inherited_key_substituted:
  "evaluateCfnExpression shadowing_session (JObj [(''Ref'', JStr ''constructor'')])
     = Inr (JStr ''acme'')
   \<and> Sub_spec shadowing_session [] ''x${constructor}y'' = Inr (JStr ''xacmey'')
   \<and> evaluateCfnExpression shadowing_session (JObj [(''Fn::Sub'', JStr ''x${constructor}y'')])
     = Inr (JStr ''xfunction Object() { [native code] }y'')
   \<and> Sub_spec shadowing_session [(''Name'', JStr ''World'')] ''x${constructor}y''
     = Inr (JStr ''xacmey'')
   \<and> evaluateCfnExpression shadowing_session
       (JObj [(''Fn::Sub'', JArr [JStr ''x${constructor}y'', JObj [(''Name'', JStr ''World'')]])])
     = Inr (JStr ''xfunction Object() { [native code] }y'')"
proof -
  have ref: "evaluateCfnExpression shadowing_session (JObj [(''Ref'', JStr ''constructor'')])
      = Inr (JStr ''acme'')"
    by code_simp
  have rules: "Sub_spec shadowing_session [] ''x${constructor}y'' = Inr (JStr ''xacmey'')"
    by code_simp
  have alone: "evaluateCfnExpression shadowing_session
        (JObj [(''Fn::Sub'', JStr ''x${constructor}y'')])
      = Inr (JStr ''xfunction Object() { [native code] }y'')"
    by code_simp
  have rules': "Sub_spec shadowing_session [(''Name'', JStr ''World'')] ''x${constructor}y''
      = Inr (JStr ''xacmey'')"
    by code_simp
  have explicit: "evaluateCfnExpression shadowing_session
        (JObj [(''Fn::Sub'', JArr [JStr ''x${constructor}y'', JObj [(''Name'', JStr ''World'')]])])
      = Inr (JStr ''xfunction Object() { [native code] }y'')"
    by code_simp
  show ?thesis
    unfolding ref rules alone rules' explicit by simp
qed

end
